theory Spec2Isabelle
  imports Main
begin

section \<open>Data model\<close>

text \<open>
  The tables of \<^verbatim>\<open>prisma/schema.prisma\<close>. The columns \<^verbatim>\<open>createdAt\<close>,
  \<^verbatim>\<open>updatedAt\<close>, \<^verbatim>\<open>isVerified\<close> and \<^verbatim>\<open>verificationToken\<close> are
  left out: no handler names them. Strings are lists of characters, so \<open>length\<close>
  is the JavaScript \<^verbatim>\<open>.length\<close> of a string of one-unit characters. The role
  is the enum \<^verbatim>\<open>UserRole\<close>.
\<close>

datatype UserRole = user | admin

record User =
  user_id :: string
  user_email :: string
  user_password :: string
  user_firstName :: string
  user_lastName :: string
  user_country :: string
  user_role :: UserRole

record Post =
  post_id :: string
  post_title :: string
  post_content :: string
  post_userId :: string

record Comment =
  comment_id :: string
  comment_content :: string
  comment_userId :: string
  comment_postId :: string

text \<open>The database: one list of rows per table.\<close>

record Db =
  users :: "User list"
  posts :: "Post list"
  comments :: "Comment list"

text \<open>\<^verbatim>\<open>req.user\<close>, as \<^verbatim>\<open>authenticate\<close> attaches it.\<close>

record ReqUser =
  ru_id :: string
  ru_email :: string
  ru_role :: UserRole

section \<open>Request bodies and validation schemas\<close>

text \<open>
  \<^verbatim>\<open>req.body\<close> after \<^verbatim>\<open>express.json()\<close>: a JSON value. An object is the list
  of its members, looked up by key with \<open>map_of\<close>.
\<close>

datatype json =
  JNull
| JBool bool
| JNum int
| JStr string
| JArr "json list"
| JObj "(string \<times> json) list"

text \<open>
  The zod combinators the schemas use. A parser returns \<open>None\<close> where zod throws
  \<^verbatim>\<open>ZodError\<close>. \<^verbatim>\<open>z.object\<close> keeps the declared keys only: a key the
  schema does not declare never reaches the parsed value.
\<close>

definition z_members :: "json \<Rightarrow> (string \<Rightarrow> json option) option" where
  "z_members body = (case body of JObj kvs \<Rightarrow> Some (map_of kvs) | _ \<Rightarrow> None)"

text \<open>\<^verbatim>\<open>z.string().min(lo).max(hi)\<close>; \<open>hi = None\<close> when there is no \<^verbatim>\<open>max\<close>.\<close>

definition z_string :: "nat \<Rightarrow> nat option \<Rightarrow> json option \<Rightarrow> string option" where
  "z_string lo hi v =
     (case v of
        Some (JStr s) \<Rightarrow>
          if lo \<le> length s \<and> (case hi of None \<Rightarrow> True | Some h \<Rightarrow> length s \<le> h)
          then Some s else None
      | _ \<Rightarrow> None)"

text \<open>\<^verbatim>\<open>z.string().min(lo).max(hi).optional()\<close>: an absent key parses to no value.\<close>

definition z_string_optional ::
  "nat \<Rightarrow> nat option \<Rightarrow> json option \<Rightarrow> string option option" where
  "z_string_optional lo hi v =
     (case v of
        None \<Rightarrow> Some None
      | Some _ \<Rightarrow> (case z_string lo hi v of None \<Rightarrow> None | Some s \<Rightarrow> Some (Some s)))"

text \<open>\<^verbatim>\<open>createPostSchema\<close> of posts.ts.\<close>

record PostInput =
  in_title :: string
  in_content :: string

definition createPostSchema :: "json \<Rightarrow> PostInput option" where
  "createPostSchema body =
     (case z_members body of
        None \<Rightarrow> None
      | Some m \<Rightarrow>
          (case z_string 1 (Some 200) (m ''title'') of
             None \<Rightarrow> None
           | Some t \<Rightarrow>
               (case z_string 1 (Some 10000) (m ''content'') of
                  None \<Rightarrow> None
                | Some c \<Rightarrow> Some \<lparr>in_title = t, in_content = c\<rparr>)))"

text \<open>\<^verbatim>\<open>updatePostSchema\<close> of posts.ts.\<close>

record PostUpdates =
  upd_title :: "string option"
  upd_content :: "string option"

definition updatePostSchema :: "json \<Rightarrow> PostUpdates option" where
  "updatePostSchema body =
     (case z_members body of
        None \<Rightarrow> None
      | Some m \<Rightarrow>
          (case z_string_optional 1 (Some 200) (m ''title'') of
             None \<Rightarrow> None
           | Some t \<Rightarrow>
               (case z_string_optional 1 (Some 10000) (m ''content'') of
                  None \<Rightarrow> None
                | Some c \<Rightarrow> Some \<lparr>upd_title = t, upd_content = c\<rparr>)))"

text \<open>
  \<^verbatim>\<open>createCommentSchema\<close> of comments.ts; \<open>is_uuid\<close> is zod's check of
  \<^verbatim>\<open>z.string().uuid()\<close>.
\<close>

record CommentInput =
  in_comment :: string
  in_postId :: string

definition createCommentSchema :: "(string \<Rightarrow> bool) \<Rightarrow> json \<Rightarrow> CommentInput option" where
  "createCommentSchema is_uuid body =
     (case z_members body of
        None \<Rightarrow> None
      | Some m \<Rightarrow>
          (case z_string 1 (Some 1000) (m ''content'') of
             None \<Rightarrow> None
           | Some c \<Rightarrow>
               (case z_string 0 None (m ''postId'') of
                  None \<Rightarrow> None
                | Some p \<Rightarrow>
                    if is_uuid p then Some \<lparr>in_comment = c, in_postId = p\<rparr> else None)))"

text \<open>\<^verbatim>\<open>updateCommentSchema\<close> of comments.ts.\<close>

definition updateCommentSchema :: "json \<Rightarrow> string option" where
  "updateCommentSchema body =
     (case z_members body of
        None \<Rightarrow> None
      | Some m \<Rightarrow> z_string 1 (Some 1000) (m ''content''))"

text \<open>The schema of \<^verbatim>\<open>updateUserRole\<close>: \<^verbatim>\<open>z.object({ role: z.enum(["user", "admin"]) })\<close>.\<close>

definition z_role :: "json option \<Rightarrow> UserRole option" where
  "z_role v =
     (case v of
        Some (JStr s) \<Rightarrow>
          if s = ''user'' then Some user else if s = ''admin'' then Some admin else None
      | _ \<Rightarrow> None)"

definition roleSchema :: "json \<Rightarrow> UserRole option" where
  "roleSchema body = (case z_members body of None \<Rightarrow> None | Some m \<Rightarrow> z_role (m ''role''))"

section \<open>Errors and responses\<close>

text \<open>
  What Prisma throws: \<open>RecordNotFound\<close> is the error of \<^verbatim>\<open>update\<close> and
  \<^verbatim>\<open>delete\<close> on a row that does not exist, \<open>UniqueConstraint\<close> the error of
  \<^verbatim>\<open>create\<close> on a taken unique column, \<open>ForeignKeyConstraint\<close> the error of
  \<^verbatim>\<open>create\<close> with a reference to a row that does not exist, \<open>StorageFailure\<close>
  any failure of the database itself while it runs a statement.
\<close>

datatype prisma_error = RecordNotFound | UniqueConstraint | ForeignKeyConstraint | StorageFailure

text \<open>
  The errors that are thrown. The repository declares two classes named
  \<^verbatim>\<open>CustomError\<close>: \<open>CustomError\<close> is the class of config.ts, the one
  users.ts imports and throws; \<open>CustomError_types\<close> is the class of types.ts, the
  one app.ts imports. \<^verbatim>\<open>TokenExpiredError\<close> is a subclass of
  \<^verbatim>\<open>JsonWebTokenError\<close>.
\<close>

datatype error =
  ZodError
| CustomError nat string
| CustomError_types nat string
| JsonWebTokenError
| TokenExpiredError
| PrismaError prisma_error

record SafeUser =
  su_id :: string
  su_email :: string
  su_firstName :: string
  su_lastName :: string
  su_role :: UserRole

text \<open>The claims a token carries: \<^verbatim>\<open>interface JWTPayload\<close> of auth.ts.\<close>

record JWTPayload =
  userId :: string
  email :: string
  role :: UserRole

text \<open>
  Modelled from the spec: the token of the Token Service (the jsonwebtoken package,
  whose \<^verbatim>\<open>sign\<close> and \<^verbatim>\<open>verify\<close> auth.ts calls, is not under src/). A token
  is a signed credential that encodes an identity snapshot and an expiration instant,
  in seconds.
\<close>

record Token =
  tok_claims :: JWTPayload
  tok_exp :: nat
  tok_signature :: string

datatype payload =
  ErrorMsg string
| ZodIssues
| PostJson Post
| CommentJson Comment
| UserJson SafeUser
| AuthJson SafeUser Token
| NoContent

text \<open>
  How a handler ends: it sends a response (\<open>Respond status body\<close>), hands an error
  to Express (\<open>Next e\<close>, the call \<^verbatim>\<open>next(error)\<close>), or lets an exception leave
  it (\<open>Throw e\<close>).
\<close>

datatype outcome =
  Respond nat payload
| Next error
| Throw error

text \<open>
  The status \<^verbatim>\<open>errorHandler\<close> of app.ts answers an error with. Its test
  \<^verbatim>\<open>err instanceof CustomError\<close> is on the class of types.ts, so an error of the
  class of config.ts falls through to the last branch, as every error does that is
  none of the classes tested.
\<close>

fun errorHandler :: "error \<Rightarrow> nat" where
  "errorHandler ZodError = 400"
| "errorHandler (CustomError_types statusCode message) = statusCode"
| "errorHandler JsonWebTokenError = 401"
| "errorHandler TokenExpiredError = 401"
| "errorHandler (CustomError statusCode message) = 500"
| "errorHandler (PrismaError e) = 500"

section \<open>The Prisma client\<close>

text \<open>
  \<^verbatim>\<open>findUnique\<close> returns the row with the given key, or nothing
  (\<^verbatim>\<open>null\<close>).
\<close>

definition user_findUnique :: "Db \<Rightarrow> string \<Rightarrow> User option" where
  "user_findUnique db i = find (\<lambda>u. user_id u = i) (users db)"

definition user_findUnique_email :: "Db \<Rightarrow> string \<Rightarrow> User option" where
  "user_findUnique_email db e = find (\<lambda>u. user_email u = e) (users db)"

definition post_findUnique :: "Db \<Rightarrow> string \<Rightarrow> Post option" where
  "post_findUnique db i = find (\<lambda>p. post_id p = i) (posts db)"

definition comment_findUnique :: "Db \<Rightarrow> string \<Rightarrow> Comment option" where
  "comment_findUnique db i = find (\<lambda>c. comment_id c = i) (comments db)"

text \<open>
  Deleting rows. The schema declares \<^verbatim>\<open>onDelete: Cascade\<close> on
  \<^verbatim>\<open>Comment.post\<close>, \<^verbatim>\<open>Comment.user\<close> and \<^verbatim>\<open>Post.user\<close>: the database
  removes the comments of a deleted post, and the posts and comments of a deleted user.
\<close>

definition delete_comments_where :: "(Comment \<Rightarrow> bool) \<Rightarrow> Db \<Rightarrow> Db" where
  "delete_comments_where P db = db\<lparr>comments := filter (\<lambda>c. \<not> P c) (comments db)\<rparr>"

definition delete_posts_where :: "(Post \<Rightarrow> bool) \<Rightarrow> Db \<Rightarrow> Db" where
  "delete_posts_where P db =
     (let gone = map post_id (filter P (posts db))
      in delete_comments_where (\<lambda>c. comment_postId c \<in> set gone)
           (db\<lparr>posts := filter (\<lambda>p. \<not> P p) (posts db)\<rparr>))"

definition delete_users_where :: "(User \<Rightarrow> bool) \<Rightarrow> Db \<Rightarrow> Db" where
  "delete_users_where P db =
     (let gone = map user_id (filter P (users db))
      in delete_comments_where (\<lambda>c. comment_userId c \<in> set gone)
           (delete_posts_where (\<lambda>p. post_userId p \<in> set gone)
              (db\<lparr>users := filter (\<lambda>u. \<not> P u) (users db)\<rparr>)))"

text \<open>A statement of a transaction: it fails, or gives the next database.\<close>

type_synonym stmt = "Db \<Rightarrow> prisma_error + Db"

definition comment_deleteMany :: "(Comment \<Rightarrow> bool) \<Rightarrow> stmt" where
  "comment_deleteMany P db = Inr (delete_comments_where P db)"

definition post_deleteMany :: "(Post \<Rightarrow> bool) \<Rightarrow> stmt" where
  "post_deleteMany P db = Inr (delete_posts_where P db)"

definition comment_delete :: "string \<Rightarrow> stmt" where
  "comment_delete i db =
     (case comment_findUnique db i of
        None \<Rightarrow> Inl RecordNotFound
      | Some c \<Rightarrow> Inr (delete_comments_where (\<lambda>c. comment_id c = i) db))"

definition post_delete :: "string \<Rightarrow> stmt" where
  "post_delete i db =
     (case post_findUnique db i of
        None \<Rightarrow> Inl RecordNotFound
      | Some p \<Rightarrow> Inr (delete_posts_where (\<lambda>p. post_id p = i) db))"

definition user_delete :: "string \<Rightarrow> stmt" where
  "user_delete i db =
     (case user_findUnique db i of
        None \<Rightarrow> Inl RecordNotFound
      | Some u \<Rightarrow> Inr (delete_users_where (\<lambda>u. user_id u = i) db))"

text \<open>
  \<^verbatim>\<open>update\<close> writes the given columns of the row with the given key and returns
  the row; it throws when there is no such row.
\<close>

definition apply_post_updates :: "PostUpdates \<Rightarrow> Post \<Rightarrow> Post" where
  "apply_post_updates d p =
     p\<lparr>post_title := (case upd_title d of None \<Rightarrow> post_title p | Some t \<Rightarrow> t),
       post_content := (case upd_content d of None \<Rightarrow> post_content p | Some c \<Rightarrow> c)\<rparr>"

definition post_update :: "string \<Rightarrow> PostUpdates \<Rightarrow> Db \<Rightarrow> prisma_error + Post \<times> Db" where
  "post_update i d db =
     (case post_findUnique db i of
        None \<Rightarrow> Inl RecordNotFound
      | Some p \<Rightarrow>
          Inr (apply_post_updates d p,
               db\<lparr>posts := map (\<lambda>q. if post_id q = i then apply_post_updates d q else q)
                              (posts db)\<rparr>))"

definition comment_update :: "string \<Rightarrow> string \<Rightarrow> Db \<Rightarrow> prisma_error + Comment \<times> Db" where
  "comment_update i content db =
     (case comment_findUnique db i of
        None \<Rightarrow> Inl RecordNotFound
      | Some c \<Rightarrow>
          Inr (c\<lparr>comment_content := content\<rparr>,
               db\<lparr>comments := map (\<lambda>q. if comment_id q = i then q\<lparr>comment_content := content\<rparr>
                                          else q)
                                 (comments db)\<rparr>))"

definition user_update_role :: "string \<Rightarrow> UserRole \<Rightarrow> Db \<Rightarrow> prisma_error + User \<times> Db" where
  "user_update_role i r db =
     (case user_findUnique db i of
        None \<Rightarrow> Inl RecordNotFound
      | Some u \<Rightarrow>
          Inr (u\<lparr>user_role := r\<rparr>,
               db\<lparr>users := map (\<lambda>q. if user_id q = i then q\<lparr>user_role := r\<rparr> else q)
                              (users db)\<rparr>))"

text \<open>
  \<^verbatim>\<open>create\<close> appends a row; the primary key and the unique columns reject a
  taken value.
\<close>

definition user_create :: "User \<Rightarrow> Db \<Rightarrow> prisma_error + User \<times> Db" where
  "user_create u db =
     (if user_findUnique db (user_id u) = None \<and> user_findUnique_email db (user_email u) = None
      then Inr (u, db\<lparr>users := users db @ [u]\<rparr>)
      else Inl UniqueConstraint)"

definition post_create :: "Post \<Rightarrow> Db \<Rightarrow> prisma_error + Post \<times> Db" where
  "post_create p db =
     (if post_findUnique db (post_id p) \<noteq> None then Inl UniqueConstraint
      else if user_findUnique db (post_userId p) = None then Inl ForeignKeyConstraint
      else Inr (p, db\<lparr>posts := posts db @ [p]\<rparr>))"

definition comment_create :: "Comment \<Rightarrow> Db \<Rightarrow> prisma_error + Comment \<times> Db" where
  "comment_create c db =
     (if comment_findUnique db (comment_id c) \<noteq> None then Inl UniqueConstraint
      else if user_findUnique db (comment_userId c) = None \<or>
              post_findUnique db (comment_postId c) = None
      then Inl ForeignKeyConstraint
      else Inr (c, db\<lparr>comments := comments db @ [c]\<rparr>))"

text \<open>
  \<^verbatim>\<open>prisma.$transaction([...])\<close> runs its statements in order inside one database
  transaction. \<open>fault k\<close> says that the database fails while it runs statement
  \<open>k\<close>. When a statement fails the transaction is rolled back: the database is the
  one the transaction started from, and the error is thrown.
\<close>

fun run_statements :: "(nat \<Rightarrow> bool) \<Rightarrow> nat \<Rightarrow> stmt list \<Rightarrow> Db \<Rightarrow> prisma_error + Db" where
  "run_statements fault k [] db = Inr db"
| "run_statements fault k (s # ss) db =
     (if fault k then Inl StorageFailure
      else (case s db of
              Inl e \<Rightarrow> Inl e
            | Inr db' \<Rightarrow> run_statements fault (Suc k) ss db'))"

definition transaction :: "(nat \<Rightarrow> bool) \<Rightarrow> stmt list \<Rightarrow> Db \<Rightarrow> prisma_error option \<times> Db" where
  "transaction fault ss db =
     (case run_statements fault 0 ss db of
        Inl e \<Rightarrow> (Some e, db)
      | Inr db' \<Rightarrow> (None, db'))"

section \<open>Post handlers (posts.ts)\<close>

text \<open>\<open>new_id\<close> is the id the database gives the created row.\<close>

definition postHandlers_create :: "string \<Rightarrow> ReqUser \<Rightarrow> json \<Rightarrow> Db \<Rightarrow> outcome \<times> Db" where
  "postHandlers_create new_id ru body db =
     (case createPostSchema body of
        None \<Rightarrow> (Respond 400 ZodIssues, db)
      | Some d \<Rightarrow>
          (case post_create
                  \<lparr>post_id = new_id, post_title = in_title d, post_content = in_content d,
                   post_userId = ru_id ru\<rparr> db of
             Inl e \<Rightarrow> (Next (PrismaError e), db)
           | Inr (post, db') \<Rightarrow> (Respond 201 (PostJson post), db')))"

definition postHandlers_update :: "ReqUser \<Rightarrow> string \<Rightarrow> json \<Rightarrow> Db \<Rightarrow> outcome \<times> Db" where
  "postHandlers_update ru i body db =
     (case updatePostSchema body of
        None \<Rightarrow> (Respond 400 ZodIssues, db)
      | Some updates \<Rightarrow>
          (case post_findUnique db i of
             None \<Rightarrow> (Respond 404 (ErrorMsg ''Post not found''), db)
           | Some post \<Rightarrow>
               if post_userId post \<noteq> ru_id ru \<and> ru_role ru \<noteq> admin
               then (Respond 403 (ErrorMsg ''Not authorized to update this post''), db)
               else (case post_update i updates db of
                       Inl e \<Rightarrow> (Next (PrismaError e), db)
                     | Inr (updatedPost, db') \<Rightarrow> (Respond 200 (PostJson updatedPost), db'))))"

definition postHandlers_delete :: "(nat \<Rightarrow> bool) \<Rightarrow> ReqUser \<Rightarrow> string \<Rightarrow> Db \<Rightarrow> outcome \<times> Db" where
  "postHandlers_delete fault ru i db =
     (case post_findUnique db i of
        None \<Rightarrow> (Respond 404 (ErrorMsg ''Post not found''), db)
      | Some post \<Rightarrow>
          if post_userId post \<noteq> ru_id ru \<and> ru_role ru \<noteq> admin
          then (Respond 403 (ErrorMsg ''Not authorized to delete this post''), db)
          else (case transaction fault
                       [comment_deleteMany (\<lambda>c. comment_postId c = i), post_delete i] db of
                  (Some e, db') \<Rightarrow> (Next (PrismaError e), db')
                | (None, db') \<Rightarrow> (Respond 204 NoContent, db')))"

definition postHandlers_getOne :: "string \<Rightarrow> Db \<Rightarrow> outcome \<times> Db" where
  "postHandlers_getOne i db =
     (case post_findUnique db i of
        None \<Rightarrow> (Respond 404 (ErrorMsg ''Post not found''), db)
      | Some post \<Rightarrow> (Respond 200 (PostJson post), db))"

section \<open>Comment handlers (comments.ts)\<close>

definition commentHandlers_create ::
  "(string \<Rightarrow> bool) \<Rightarrow> string \<Rightarrow> ReqUser \<Rightarrow> json \<Rightarrow> Db \<Rightarrow> outcome \<times> Db" where
  "commentHandlers_create is_uuid new_id ru body db =
     (case createCommentSchema is_uuid body of
        None \<Rightarrow> (Respond 400 ZodIssues, db)
      | Some d \<Rightarrow>
          (case post_findUnique db (in_postId d) of
             None \<Rightarrow> (Respond 404 (ErrorMsg ''Post not found''), db)
           | Some post \<Rightarrow>
               (case comment_create
                       \<lparr>comment_id = new_id, comment_content = in_comment d,
                        comment_userId = ru_id ru, comment_postId = in_postId d\<rparr> db of
                  Inl e \<Rightarrow> (Next (PrismaError e), db)
                | Inr (comment, db') \<Rightarrow> (Respond 201 (CommentJson comment), db'))))"

definition commentHandlers_update :: "ReqUser \<Rightarrow> string \<Rightarrow> json \<Rightarrow> Db \<Rightarrow> outcome \<times> Db" where
  "commentHandlers_update ru i body db =
     (case updateCommentSchema body of
        None \<Rightarrow> (Respond 400 ZodIssues, db)
      | Some content \<Rightarrow>
          (case comment_findUnique db i of
             None \<Rightarrow> (Respond 404 (ErrorMsg ''Comment not found''), db)
           | Some comment \<Rightarrow>
               if comment_userId comment \<noteq> ru_id ru \<and> ru_role ru \<noteq> admin
               then (Respond 403 (ErrorMsg ''Not authorized''), db)
               else (case comment_update i content db of
                       Inl e \<Rightarrow> (Next (PrismaError e), db)
                     | Inr (updatedComment, db') \<Rightarrow>
                         (Respond 200 (CommentJson updatedComment), db'))))"

definition commentHandlers_delete :: "ReqUser \<Rightarrow> string \<Rightarrow> Db \<Rightarrow> outcome \<times> Db" where
  "commentHandlers_delete ru i db =
     (case comment_findUnique db i of
        None \<Rightarrow> (Respond 404 (ErrorMsg ''Comment not found''), db)
      | Some comment \<Rightarrow>
          if comment_userId comment \<noteq> ru_id ru \<and> ru_role ru \<noteq> admin
          then (Respond 403 (ErrorMsg ''Not authorized''), db)
          else (case comment_delete i db of
                  Inl e \<Rightarrow> (Next (PrismaError e), db)
                | Inr db' \<Rightarrow> (Respond 204 NoContent, db')))"

section \<open>User handlers (users.ts)\<close>

definition safeUser :: "User \<Rightarrow> SafeUser" where
  "safeUser u =
     \<lparr>su_id = user_id u, su_email = user_email u, su_firstName = user_firstName u,
      su_lastName = user_lastName u, su_role = user_role u\<rparr>"

definition userHandlers_updateUserRole :: "ReqUser \<Rightarrow> string \<Rightarrow> json \<Rightarrow> Db \<Rightarrow> outcome \<times> Db" where
  "userHandlers_updateUserRole ru i body db =
     (case roleSchema body of
        None \<Rightarrow> (Throw ZodError, db)
      | Some r \<Rightarrow>
          if i = ru_id ru
          then (Throw (CustomError 400 ''Cannot update your own role''), db)
          else (case user_update_role i r db of
                  Inl e \<Rightarrow> (Throw (PrismaError e), db)
                | Inr (updatedUser, db') \<Rightarrow> (Respond 200 (UserJson (safeUser updatedUser)), db')))"

definition userHandlers_deleteUser :: "(nat \<Rightarrow> bool) \<Rightarrow> ReqUser \<Rightarrow> string \<Rightarrow> Db \<Rightarrow> outcome \<times> Db" where
  "userHandlers_deleteUser fault ru i db =
     (if i = ru_id ru
      then (Throw (CustomError 400 ''Cannot delete your own account''), db)
      else (case transaction fault
                   [comment_deleteMany (\<lambda>c. comment_userId c = i),
                    post_deleteMany (\<lambda>p. post_userId p = i),
                    user_delete i] db of
              (Some e, db') \<Rightarrow> (Throw (PrismaError e), db')
            | (None, db') \<Rightarrow> (Respond 204 NoContent, db')))"

section \<open>Authentication (auth.ts)\<close>

text \<open>
  What auth.ts calls and does not define: zod's e-mail check, bcrypt, the identifier
  the database gives a new row, the keyed hash that signs a token, the configured
  secret and time to live (\<^verbatim>\<open>jwtConfig\<close>, the time to live in seconds), and the
  clock, in seconds.
\<close>

record Env =
  isEmail :: "string \<Rightarrow> bool"
  bcrypt_hash :: "string \<Rightarrow> string"
  bcrypt_compare :: "string \<Rightarrow> string \<Rightarrow> bool"
  uuid :: string
  hmac :: "string \<Rightarrow> JWTPayload \<times> nat \<Rightarrow> string"
  jwt_secret :: string
  jwt_expiresIn :: nat
  clock :: nat

text \<open>
  Modelled from the spec: the failures of the Token Service's \<^verbatim>\<open>verify\<close>
  (\<^verbatim>\<open>jwt.verify\<close> of the jsonwebtoken package, which is not under src/).
\<close>

datatype token_error = InvalidToken | TokenExpired

text \<open>
  Modelled from the spec: \<^verbatim>\<open>issue\<close> of the Token Service (\<^verbatim>\<open>jwt.sign\<close> of
  the jsonwebtoken package, which is not under src/). It produces a signed token
  embedding the identity and an expiry computed from the time to live; \<open>mac\<close> is
  the keyed hash that signs.
\<close>

definition jwt_sign ::
  "(string \<Rightarrow> JWTPayload \<times> nat \<Rightarrow> string) \<Rightarrow> JWTPayload \<Rightarrow> string \<Rightarrow> nat \<Rightarrow> nat \<Rightarrow> Token" where
  "jwt_sign mac ident secret ttl now =
     \<lparr>tok_claims = ident, tok_exp = now + ttl, tok_signature = mac secret (ident, now + ttl)\<rparr>"

text \<open>
  Modelled from the spec: \<^verbatim>\<open>verify\<close> of the Token Service (\<^verbatim>\<open>jwt.verify\<close>
  of the jsonwebtoken package, which is not under src/). It fails with
  \<open>InvalidToken\<close> when the signature does not match, with \<open>TokenExpired\<close>
  when the current time exceeds the embedded expiry, and returns the embedded claims
  otherwise.
\<close>

definition jwt_verify ::
  "(string \<Rightarrow> JWTPayload \<times> nat \<Rightarrow> string) \<Rightarrow> Token \<Rightarrow> string \<Rightarrow> nat \<Rightarrow> token_error + JWTPayload" where
  "jwt_verify mac t secret now =
     (if tok_signature t \<noteq> mac secret (tok_claims t, tok_exp t) then Inl InvalidToken
      else if tok_exp t < now then Inl TokenExpired
      else Inr (tok_claims t))"

text \<open>\<^verbatim>\<open>signupSchema\<close> and \<^verbatim>\<open>loginSchema\<close>.\<close>

definition z_email :: "(string \<Rightarrow> bool) \<Rightarrow> json option \<Rightarrow> string option" where
  "z_email is_email v =
     (case z_string 0 None v of
        None \<Rightarrow> None
      | Some s \<Rightarrow> if is_email s then Some s else None)"

record SignupData =
  sd_email :: string
  sd_password :: string
  sd_firstName :: string
  sd_lastName :: string
  sd_country :: string

definition signupSchema :: "(string \<Rightarrow> bool) \<Rightarrow> json \<Rightarrow> SignupData option" where
  "signupSchema is_email body =
     (case z_members body of
        None \<Rightarrow> None
      | Some m \<Rightarrow>
          (case (z_email is_email (m ''email''), z_string 8 None (m ''password''),
                 z_string 2 None (m ''firstName''), z_string 2 None (m ''lastName''),
                 z_string 2 None (m ''country'')) of
             (Some e, Some p, Some f, Some l, Some c) \<Rightarrow>
               Some \<lparr>sd_email = e, sd_password = p, sd_firstName = f, sd_lastName = l,
                     sd_country = c\<rparr>
           | _ \<Rightarrow> None))"

definition loginSchema :: "(string \<Rightarrow> bool) \<Rightarrow> json \<Rightarrow> (string \<times> string) option" where
  "loginSchema is_email body =
     (case z_members body of
        None \<Rightarrow> None
      | Some m \<Rightarrow>
          (case (z_email is_email (m ''email''), z_string 0 None (m ''password'')) of
             (Some e, Some p) \<Rightarrow> Some (e, p)
           | _ \<Rightarrow> None))"

text \<open>The token \<^verbatim>\<open>signup\<close> and \<^verbatim>\<open>login\<close> sign for a user row.\<close>

definition token_for :: "Env \<Rightarrow> User \<Rightarrow> Token" where
  "token_for env u =
     jwt_sign (hmac env) \<lparr>userId = user_id u, email = user_email u, role = user_role u\<rparr>
       (jwt_secret env) (jwt_expiresIn env) (clock env)"

definition authHandlers_signup :: "Env \<Rightarrow> json \<Rightarrow> Db \<Rightarrow> outcome \<times> Db" where
  "authHandlers_signup env body db =
     (case signupSchema (isEmail env) body of
        None \<Rightarrow> (Respond 400 ZodIssues, db)
      | Some d \<Rightarrow>
          (case user_findUnique_email db (sd_email d) of
             Some existingUser \<Rightarrow> (Respond 400 (ErrorMsg ''Email already registered''), db)
           | None \<Rightarrow>
               (let hashedPassword = bcrypt_hash env (sd_password d) in
                case user_create
                       \<lparr>user_id = uuid env, user_email = sd_email d,
                        user_password = hashedPassword, user_firstName = sd_firstName d,
                        user_lastName = sd_lastName d, user_country = sd_country d,
                        user_role = user\<rparr> db of
                  Inl e \<Rightarrow> (Next (PrismaError e), db)
                | Inr (u, db') \<Rightarrow> (Respond 201 (AuthJson (safeUser u) (token_for env u)), db'))))"

definition authHandlers_login :: "Env \<Rightarrow> json \<Rightarrow> Db \<Rightarrow> outcome \<times> Db" where
  "authHandlers_login env body db =
     (case loginSchema (isEmail env) body of
        None \<Rightarrow> (Respond 400 ZodIssues, db)
      | Some (e, password) \<Rightarrow>
          (case user_findUnique_email db e of
             None \<Rightarrow> (Respond 401 (ErrorMsg ''Invalid credentials''), db)
           | Some u \<Rightarrow>
               if \<not> bcrypt_compare env password (user_password u)
               then (Respond 401 (ErrorMsg ''Invalid credentials''), db)
               else (Respond 200 (AuthJson (safeUser u) (token_for env u)), db)))"

text \<open>
  The middleware \<^verbatim>\<open>authenticate\<close>. \<open>split_on\<close> is JavaScript's
  \<^verbatim>\<open>String.prototype.split\<close> with a one-character separator, and
  \<open>header_token\<close> the expression \<^verbatim>\<open>req.headers.authorization?.split(" ")[1]\<close>,
  \<open>None\<close> for \<^verbatim>\<open>undefined\<close>. \<open>verify_token\<close> stands for the call
  \<^verbatim>\<open>jwt.verify(token, jwtConfig.secret)\<close> on the text of a token. A middleware
  ends the request (\<open>Inl\<close>) or calls \<^verbatim>\<open>next()\<close> (\<open>Inr\<close>).
\<close>

fun split_on :: "char \<Rightarrow> string \<Rightarrow> string list" where
  "split_on sep [] = [[]]"
| "split_on sep (x # xs) =
     (if x = sep then [] # split_on sep xs
      else (case split_on sep xs of
              [] \<Rightarrow> [[x]]
            | w # ws \<Rightarrow> (x # w) # ws))"

definition header_token :: "string option \<Rightarrow> string option" where
  "header_token authorization =
     (case authorization of
        None \<Rightarrow> None
      | Some h \<Rightarrow> (case split_on CHR '' '' h of a # t # rest \<Rightarrow> Some t | _ \<Rightarrow> None))"

fun is_JsonWebTokenError :: "error \<Rightarrow> bool" where
  "is_JsonWebTokenError JsonWebTokenError = True"
| "is_JsonWebTokenError TokenExpiredError = True"
| "is_JsonWebTokenError e = False"

definition authenticate ::
  "(string \<Rightarrow> error + JWTPayload) \<Rightarrow> Db \<Rightarrow> string option \<Rightarrow> outcome + ReqUser" where
  "authenticate verify_token db authorization =
     (case header_token authorization of
        None \<Rightarrow> Inl (Respond 401 (ErrorMsg ''Authentication required''))
      | Some token \<Rightarrow>
          if token = [] then Inl (Respond 401 (ErrorMsg ''Authentication required''))
          else (case verify_token token of
                  Inl e \<Rightarrow>
                    if is_JsonWebTokenError e then Inl (Respond 401 (ErrorMsg ''Invalid token''))
                    else Inl (Next e)
                | Inr decoded \<Rightarrow>
                    (case user_findUnique db (userId decoded) of
                       None \<Rightarrow> Inl (Respond 401 (ErrorMsg ''Invalid token''))
                     | Some u \<Rightarrow>
                         Inr \<lparr>ru_id = user_id u, ru_email = user_email u,
                              ru_role = user_role u\<rparr>)))"

definition requireAdmin :: "ReqUser option \<Rightarrow> outcome + ReqUser option" where
  "requireAdmin req_user =
     (if map_option ru_role req_user \<noteq> Some admin
      then Inl (Respond 403 (ErrorMsg ''Admin access required''))
      else Inr req_user)"

section \<open>Routes (routes.ts)\<close>

datatype route =
  AuthSignup
| AuthLogin
| AuthAdmin
| PostsCreate
| PostsGetMany
| PostsGetOne
| PostsUpdate
| PostsDelete
| CommentsCreate
| CommentsGetByPost
| CommentsUpdate
| CommentsDelete
| DocsUser
| DocsAdmin
| Health

datatype http_method = GET | POST | PATCH | DELETE

fun route_method :: "route \<Rightarrow> http_method" where
  "route_method AuthSignup = POST"
| "route_method AuthLogin = POST"
| "route_method AuthAdmin = POST"
| "route_method PostsCreate = POST"
| "route_method PostsGetMany = GET"
| "route_method PostsGetOne = GET"
| "route_method PostsUpdate = PATCH"
| "route_method PostsDelete = DELETE"
| "route_method CommentsCreate = POST"
| "route_method CommentsGetByPost = GET"
| "route_method CommentsUpdate = PATCH"
| "route_method CommentsDelete = DELETE"
| "route_method DocsUser = GET"
| "route_method DocsAdmin = GET"
| "route_method Health = GET"

datatype middleware = Authenticate | RequireAdmin | RateLimit

text \<open>The middlewares each route registers before its handler, in order.\<close>

fun route_middlewares :: "route \<Rightarrow> middleware list" where
  "route_middlewares AuthSignup = [RateLimit]"
| "route_middlewares AuthLogin = [RateLimit]"
| "route_middlewares AuthAdmin = [Authenticate, RequireAdmin, RateLimit]"
| "route_middlewares PostsCreate = [Authenticate, RateLimit]"
| "route_middlewares PostsGetMany = []"
| "route_middlewares PostsGetOne = []"
| "route_middlewares PostsUpdate = [Authenticate, RateLimit]"
| "route_middlewares PostsDelete = [Authenticate]"
| "route_middlewares CommentsCreate = [Authenticate, RateLimit]"
| "route_middlewares CommentsGetByPost = []"
| "route_middlewares CommentsUpdate = [Authenticate, RateLimit]"
| "route_middlewares CommentsDelete = [Authenticate]"
| "route_middlewares DocsUser = []"
| "route_middlewares DocsAdmin = [Authenticate, RequireAdmin]"
| "route_middlewares Health = []"

text \<open>
  Running the middlewares of a route on a request: \<open>Inl\<close> when one of them ends the
  request, \<open>Inr\<close> with \<^verbatim>\<open>req.user\<close> when the handler is reached. \<open>limited\<close>
  says that the route's rate limiter rejects the request. This is the router of
  routes.ts: the middlewares that app.ts puts before it (helmet, cors, the JSON body
  parser, the global rate limiter, the request log) are not part of it.
\<close>

fun run_middlewares ::
  "(string \<Rightarrow> error + JWTPayload) \<Rightarrow> bool \<Rightarrow> Db \<Rightarrow> string option \<Rightarrow> middleware list \<Rightarrow>
   ReqUser option \<Rightarrow> outcome + ReqUser option" where
  "run_middlewares verify_token limited db authorization [] req_user = Inr req_user"
| "run_middlewares verify_token limited db authorization (Authenticate # ms) req_user =
     (case authenticate verify_token db authorization of
        Inl out \<Rightarrow> Inl out
      | Inr u \<Rightarrow> run_middlewares verify_token limited db authorization ms (Some u))"
| "run_middlewares verify_token limited db authorization (RequireAdmin # ms) req_user =
     (case requireAdmin req_user of
        Inl out \<Rightarrow> Inl out
      | Inr u \<Rightarrow> run_middlewares verify_token limited db authorization ms u)"
| "run_middlewares verify_token limited db authorization (RateLimit # ms) req_user =
     (if limited then Inl (Respond 429 (ErrorMsg ''Too many requests, please try again later.''))
      else run_middlewares verify_token limited db authorization ms req_user)"

definition run_route ::
  "(string \<Rightarrow> error + JWTPayload) \<Rightarrow> bool \<Rightarrow> Db \<Rightarrow> string option \<Rightarrow> route \<Rightarrow>
   outcome + ReqUser option" where
  "run_route verify_token limited db authorization r =
     run_middlewares verify_token limited db authorization (route_middlewares r) None"

section \<open>Example data\<close>

text \<open>
  The rows the test helpers of tests/setup.ts create (\<^verbatim>\<open>createUser\<close>,
  \<^verbatim>\<open>createPost\<close>, \<^verbatim>\<open>createComment\<close>), used by the examples below:
  a user who owns a post, another user who commented on it, and an administrator.
  \<open>req_user_of u\<close> is \<^verbatim>\<open>req.user\<close> for a request that \<open>u\<close> makes;
  \<open>no_fault\<close> is a database that never fails, \<open>fault_at n\<close> one that fails at
  statement \<open>n\<close> of a transaction.
\<close>

definition req_user_of :: "User \<Rightarrow> ReqUser" where
  "req_user_of u = \<lparr>ru_id = user_id u, ru_email = user_email u, ru_role = user_role u\<rparr>"

definition owner :: User where
  "owner = \<lparr>user_id = ''u1'', user_email = ''test@example.com'', user_password = ''$2b$password123'',
            user_firstName = ''Test'', user_lastName = ''User'', user_country = ''US'',
            user_role = user\<rparr>"

definition otherUser :: User where
  "otherUser = \<lparr>user_id = ''u2'', user_email = ''other@example.com'',
                user_password = ''$2b$password123'', user_firstName = ''Test'',
                user_lastName = ''User'', user_country = ''US'', user_role = user\<rparr>"

definition adminUser :: User where
  "adminUser = \<lparr>user_id = ''u3'', user_email = ''admin@example.com'',
                user_password = ''$2b$password123'', user_firstName = ''Test'',
                user_lastName = ''User'', user_country = ''US'', user_role = admin\<rparr>"

definition testPost :: Post where
  "testPost = \<lparr>post_id = ''p1'', post_title = ''Test Post'', post_content = ''Test content'',
               post_userId = ''u1''\<rparr>"

definition otherPost :: Post where
  "otherPost = \<lparr>post_id = ''p2'', post_title = ''Post 2'', post_content = ''Test content'',
                post_userId = ''u2''\<rparr>"

definition testComment :: Comment where
  "testComment = \<lparr>comment_id = ''c1'', comment_content = ''Test comment'',
                  comment_userId = ''u2'', comment_postId = ''p1''\<rparr>"

definition ownComment :: Comment where
  "ownComment = \<lparr>comment_id = ''c2'', comment_content = ''Test comment'',
                 comment_userId = ''u1'', comment_postId = ''p2''\<rparr>"

definition testDb :: Db where
  "testDb = \<lparr>users = [owner, otherUser, adminUser], posts = [testPost, otherPost],
             comments = [testComment, ownComment]\<rparr>"

definition no_fault :: "nat \<Rightarrow> bool" where
  "no_fault k = False"

definition fault_at :: "nat \<Rightarrow> nat \<Rightarrow> bool" where
  "fault_at n k = (k = n)"

text \<open>
  Collaborators for the examples of signup, login and authentication: an e-mail check
  that asks for an \<^verbatim>\<open>@\<close>, a hash that prefixes the password, the id of the next
  row, a keyed hash, the secret and the seven days of the example configuration, and a
  verifier that accepts no token.
\<close>

definition testEnv :: Env where
  "testEnv =
     \<lparr>isEmail = (\<lambda>s. CHR ''@'' \<in> set s),
      bcrypt_hash = (\<lambda>p. ''$2b$'' @ p),
      bcrypt_compare = (\<lambda>p h. h = ''$2b$'' @ p),
      uuid = ''u4'',
      hmac = (\<lambda>k (p, e). k @ userId p @ email p),
      jwt_secret = ''your_secret_key_at_least_32_characters_long'',
      jwt_expiresIn = 604800,
      clock = 1700000000\<rparr>"

definition newUser :: User where
  "newUser = \<lparr>user_id = ''u4'', user_email = ''new@example.com'',
              user_password = ''$2b$password123'', user_firstName = ''Test'',
              user_lastName = ''User'', user_country = ''US'', user_role = user\<rparr>"

definition signupBody :: json where
  "signupBody =
     JObj [(''email'', JStr ''new@example.com''), (''password'', JStr ''password123''),
           (''firstName'', JStr ''Test''), (''lastName'', JStr ''User''),
           (''country'', JStr ''US''), (''role'', JStr ''admin'')]"

definition loginBody :: json where
  "loginBody = JObj [(''email'', JStr ''admin@example.com''), (''password'', JStr ''password123'')]"

definition verify_none :: "string \<Rightarrow> error + JWTPayload" where
  "verify_none t = Inl JsonWebTokenError"

text \<open>A check of identifiers that asks for a string that is not empty.\<close>

definition nonempty_id :: "string \<Rightarrow> bool" where
  "nonempty_id s = (s \<noteq> [])"

section \<open>Facts about the handlers\<close>

lemma member_gone_post:
  "x \<in> set (map post_id (filter (\<lambda>p. post_id p = i) ps)) \<Longrightarrow> x = i"
  by auto

lemma delete_post_cascade:
  "delete_posts_where (\<lambda>p. post_id p = i) (delete_comments_where (\<lambda>c. comment_postId c = i) db) =
     db\<lparr>posts := filter (\<lambda>q. post_id q \<noteq> i) (posts db),
        comments := filter (\<lambda>c. comment_postId c \<noteq> i) (comments db)\<rparr>"
proof -
  have "filter (\<lambda>c. comment_postId c \<notin> set (map post_id (filter (\<lambda>p. post_id p = i) (posts db))))
          (filter (\<lambda>c. comment_postId c \<noteq> i) (comments db)) =
        filter (\<lambda>c. comment_postId c \<noteq> i) (comments db)"
    by (rule filter_True) (auto dest: member_gone_post)
  then show ?thesis
    by (simp add: delete_posts_where_def delete_comments_where_def)
qed

lemma post_delete_transaction:
  assumes "post_findUnique db i = Some p"
  shows "transaction fault [comment_deleteMany (\<lambda>c. comment_postId c = i), post_delete i] db =
     (if fault 0 \<or> fault 1 then (Some StorageFailure, db)
      else (None, db\<lparr>posts := filter (\<lambda>q. post_id q \<noteq> i) (posts db),
                      comments := filter (\<lambda>c. comment_postId c \<noteq> i) (comments db)\<rparr>))"
proof -
  have "post_findUnique (delete_comments_where (\<lambda>c. comment_postId c = i) db) i = Some p"
    using assms by (simp add: post_findUnique_def delete_comments_where_def)
  then show ?thesis
    by (simp add: transaction_def comment_deleteMany_def post_delete_def delete_post_cascade)
qed

lemma postHandlers_update_authz:
  assumes "updatePostSchema body = Some d" and "post_findUnique db i = Some p"
  shows "postHandlers_update ru i body db =
       (if ru_role ru = admin \<or> post_userId p = ru_id ru
        then (Respond 200 (PostJson (apply_post_updates d p)),
              db\<lparr>posts := map (\<lambda>q. if post_id q = i then apply_post_updates d q else q) (posts db)\<rparr>)
        else (Respond 403 (ErrorMsg ''Not authorized to update this post''), db))"
  using assms by (auto simp: postHandlers_update_def post_update_def)

lemma postHandlers_delete_authz:
  assumes "post_findUnique db i = Some p"
  shows "postHandlers_delete fault ru i db =
       (if ru_role ru = admin \<or> post_userId p = ru_id ru
        then (if fault 0 \<or> fault 1 then (Next (PrismaError StorageFailure), db)
              else (Respond 204 NoContent,
                    db\<lparr>posts := filter (\<lambda>q. post_id q \<noteq> i) (posts db),
                       comments := filter (\<lambda>c. comment_postId c \<noteq> i) (comments db)\<rparr>))
        else (Respond 403 (ErrorMsg ''Not authorized to delete this post''), db))"
  using assms by (auto simp: postHandlers_delete_def post_delete_transaction)

lemma commentHandlers_update_authz:
  assumes "updateCommentSchema body = Some content" and "comment_findUnique db i = Some c"
  shows "commentHandlers_update ru i body db =
       (if ru_role ru = admin \<or> comment_userId c = ru_id ru
        then (Respond 200 (CommentJson (c\<lparr>comment_content := content\<rparr>)),
              db\<lparr>comments := map (\<lambda>q. if comment_id q = i then q\<lparr>comment_content := content\<rparr> else q)
                                (comments db)\<rparr>)
        else (Respond 403 (ErrorMsg ''Not authorized''), db))"
  using assms by (auto simp: commentHandlers_update_def comment_update_def)

lemma commentHandlers_delete_authz:
  assumes "comment_findUnique db i = Some c"
  shows "commentHandlers_delete ru i db =
       (if ru_role ru = admin \<or> comment_userId c = ru_id ru
        then (Respond 204 NoContent,
              db\<lparr>comments := filter (\<lambda>q. comment_id q \<noteq> i) (comments db)\<rparr>)
        else (Respond 403 (ErrorMsg ''Not authorized''), db))"
  using assms by (auto simp: commentHandlers_delete_def comment_delete_def delete_comments_where_def)

lemma postHandlers_update_missing:
  assumes "post_findUnique db i = None"
  shows "postHandlers_update ru i body db =
     (if updatePostSchema body = None then (Respond 400 ZodIssues, db)
      else (Respond 404 (ErrorMsg ''Post not found''), db))"
  using assms by (auto simp: postHandlers_update_def split: option.splits)

lemma commentHandlers_update_missing:
  assumes "comment_findUnique db i = None"
  shows "commentHandlers_update ru i body db =
     (if updateCommentSchema body = None then (Respond 400 ZodIssues, db)
      else (Respond 404 (ErrorMsg ''Comment not found''), db))"
  using assms by (auto simp: commentHandlers_update_def split: option.splits)

lemma postHandlers_delete_missing:
  "post_findUnique db i = None \<Longrightarrow>
   postHandlers_delete fault ru i db = (Respond 404 (ErrorMsg ''Post not found''), db)"
  by (simp add: postHandlers_delete_def)

lemma commentHandlers_delete_missing:
  "comment_findUnique db i = None \<Longrightarrow>
   commentHandlers_delete ru i db = (Respond 404 (ErrorMsg ''Comment not found''), db)"
  by (simp add: commentHandlers_delete_def)

lemma postHandlers_update_invalid:
  "updatePostSchema body = None \<Longrightarrow> postHandlers_update ru i body db = (Respond 400 ZodIssues, db)"
  by (simp add: postHandlers_update_def)

lemma commentHandlers_update_invalid:
  "updateCommentSchema body = None \<Longrightarrow>
   commentHandlers_update ru i body db = (Respond 400 ZodIssues, db)"
  by (simp add: commentHandlers_update_def)

lemma apply_post_updates_owner [simp]:
  "post_userId (apply_post_updates d p) = post_userId p"
  "post_id (apply_post_updates d p) = post_id p"
  by (simp_all add: apply_post_updates_def)

lemma postHandlers_update_owners:
  "map (\<lambda>p. (post_id p, post_userId p)) (posts (snd (postHandlers_update ru i body db))) =
   map (\<lambda>p. (post_id p, post_userId p)) (posts db)"
  "comments (snd (postHandlers_update ru i body db)) = comments db"
  by (auto simp: postHandlers_update_def post_update_def split: option.splits)

lemma commentHandlers_update_owners:
  "map (\<lambda>c. (comment_id c, comment_userId c)) (comments (snd (commentHandlers_update ru i body db))) =
   map (\<lambda>c. (comment_id c, comment_userId c)) (comments db)"
  "posts (snd (commentHandlers_update ru i body db)) = posts db"
  by (auto simp: commentHandlers_update_def comment_update_def split: option.splits)

lemma updateUserRole_self:
  "userHandlers_updateUserRole ru (ru_id ru) body db =
     (Throw (if roleSchema body = None then ZodError
             else CustomError 400 ''Cannot update your own role''), db)"
  by (auto simp: userHandlers_updateUserRole_def split: option.splits)

lemma deleteUser_self:
  "userHandlers_deleteUser fault ru (ru_id ru) db = (Throw (CustomError 400 ''Cannot delete your own account''), db)"
  by (simp add: userHandlers_deleteUser_def)

lemma updateUserRole_missing:
  "i \<noteq> ru_id ru \<Longrightarrow> roleSchema body = Some r \<Longrightarrow> user_findUnique db i = None \<Longrightarrow>
   userHandlers_updateUserRole ru i body db = (Throw (PrismaError RecordNotFound), db)"
  by (simp add: userHandlers_updateUserRole_def user_update_role_def)

lemma delete_comments_where_none:
  assumes "\<And>c. c \<in> set (comments d) \<Longrightarrow> \<not> P c"
  shows "delete_comments_where P d = d"
proof -
  have "filter (\<lambda>c. \<not> P c) (comments d) = comments d"
    by (rule filter_True) (simp add: assms)
  then show ?thesis
    by (simp add: delete_comments_where_def)
qed

lemma delete_posts_where_none:
  assumes "\<And>p. p \<in> set (posts d) \<Longrightarrow> \<not> P p"
  shows "delete_posts_where P d = d"
proof -
  have none: "filter P (posts d) = []"
    by (simp add: filter_empty_conv assms)
  have all: "filter (\<lambda>p. \<not> P p) (posts d) = posts d"
    by (rule filter_True) (simp add: assms)
  show ?thesis
    by (simp add: delete_posts_where_def delete_comments_where_def none all)
qed

lemma delete_users_where_no_dependents:
  assumes "\<And>p. p \<in> set (posts d) \<Longrightarrow> post_userId p \<noteq> i"
    and "\<And>c. c \<in> set (comments d) \<Longrightarrow> comment_userId c \<noteq> i"
  shows "delete_users_where (\<lambda>u. user_id u = i) d = d\<lparr>users := filter (\<lambda>u. user_id u \<noteq> i) (users d)\<rparr>"
proof -
  let ?gone = "map user_id (filter (\<lambda>u. user_id u = i) (users d))"
  let ?d1 = "d\<lparr>users := filter (\<lambda>u. user_id u \<noteq> i) (users d)\<rparr>"
  have p: "delete_posts_where (\<lambda>p. post_userId p \<in> set ?gone) ?d1 = ?d1"
    by (rule delete_posts_where_none) (use assms(1) in auto)
  have c: "delete_comments_where (\<lambda>c. comment_userId c \<in> set ?gone) ?d1 = ?d1"
    by (rule delete_comments_where_none) (use assms(2) in auto)
  show ?thesis
    unfolding delete_users_where_def Let_def p c ..
qed

lemma deleteUser_transaction:
  "transaction fault
     [comment_deleteMany (\<lambda>c. comment_userId c = i),
      post_deleteMany (\<lambda>p. post_userId p = i),
      user_delete i] db =
   (if fault 0 \<or> fault 1 \<or> fault 2 then (Some StorageFailure, db)
    else if user_findUnique db i = None then (Some RecordNotFound, db)
    else (None,
          db\<lparr>users := filter (\<lambda>u. user_id u \<noteq> i) (users db),
             posts := filter (\<lambda>p. post_userId p \<noteq> i) (posts db),
             comments :=
               filter (\<lambda>c. comment_postId c \<notin> set (map post_id (filter (\<lambda>p. post_userId p = i) (posts db))))
                 (filter (\<lambda>c. comment_userId c \<noteq> i) (comments db))\<rparr>))"
proof -
  let ?d2 = "delete_posts_where (\<lambda>p. post_userId p = i)
               (delete_comments_where (\<lambda>c. comment_userId c = i) db)"
  have d2: "?d2 = db\<lparr>posts := filter (\<lambda>p. post_userId p \<noteq> i) (posts db),
             comments :=
               filter (\<lambda>c. comment_postId c \<notin> set (map post_id (filter (\<lambda>p. post_userId p = i) (posts db))))
                 (filter (\<lambda>c. comment_userId c \<noteq> i) (comments db))\<rparr>"
    by (simp add: delete_posts_where_def delete_comments_where_def)
  have u: "user_findUnique ?d2 i = user_findUnique db i"
    by (simp add: d2 user_findUnique_def)
  have "delete_users_where (\<lambda>u. user_id u = i) ?d2 =
          ?d2\<lparr>users := filter (\<lambda>u. user_id u \<noteq> i) (users ?d2)\<rparr>"
    by (rule delete_users_where_no_dependents) (auto simp: d2)
  then have d3: "delete_users_where (\<lambda>u. user_id u = i) ?d2 =
          db\<lparr>users := filter (\<lambda>u. user_id u \<noteq> i) (users db),
             posts := filter (\<lambda>p. post_userId p \<noteq> i) (posts db),
             comments :=
               filter (\<lambda>c. comment_postId c \<notin> set (map post_id (filter (\<lambda>p. post_userId p = i) (posts db))))
                 (filter (\<lambda>c. comment_userId c \<noteq> i) (comments db))\<rparr>"
    by (simp add: d2)
  show ?thesis
    by (simp add: transaction_def comment_deleteMany_def post_deleteMany_def user_delete_def
        numeral_2_eq_2 u d3 split: option.splits)
qed

lemma deleteUser_other:
  assumes "i \<noteq> ru_id ru"
  shows "userHandlers_deleteUser fault ru i db =
   (if fault 0 \<or> fault 1 \<or> fault 2 then (Throw (PrismaError StorageFailure), db)
    else if user_findUnique db i = None then (Throw (PrismaError RecordNotFound), db)
    else (Respond 204 NoContent,
          db\<lparr>users := filter (\<lambda>u. user_id u \<noteq> i) (users db),
             posts := filter (\<lambda>p. post_userId p \<noteq> i) (posts db),
             comments :=
               filter (\<lambda>c. comment_postId c \<notin> set (map post_id (filter (\<lambda>p. post_userId p = i) (posts db))))
                 (filter (\<lambda>c. comment_userId c \<noteq> i) (comments db))\<rparr>))"
  using assms unfolding userHandlers_deleteUser_def deleteUser_transaction by simp

lemma find_map_key:
  assumes "\<And>x. P (f x) = P x"
  shows "find P (map f xs) = map_option f (find P xs)"
  by (induction xs) (simp_all add: assms)

lemma find_key_holds: "find P xs = Some x \<Longrightarrow> P x"
  by (induction xs) (auto split: if_splits)

lemma find_filter_out: "find P (filter (\<lambda>x. \<not> P x) xs) = None"
  by (simp add: find_None_iff)

lemma postHandlers_update_accepted:
  assumes "postHandlers_update ru i body db = (Respond 200 (PostJson p'), db')"
  shows "\<exists>p. post_findUnique db i = Some p \<and> post_findUnique db' i = Some p' \<and>
             post_userId p' = post_userId p \<and> post_id p' = post_id p"
proof -
  from assms obtain d p where d: "updatePostSchema body = Some d"
    and p: "post_findUnique db i = Some p"
    and allowed: "ru_role ru = admin \<or> post_userId p = ru_id ru"
    by (auto simp: postHandlers_update_def split: option.splits if_splits)
  let ?f = "\<lambda>q. if post_id q = i then apply_post_updates d q else q"
  from assms d p allowed have res: "p' = apply_post_updates d p" "db' = db\<lparr>posts := map ?f (posts db)\<rparr>"
    by (auto simp: postHandlers_update_authz)
  have key: "post_id p = i"
    using p find_key_holds [of "\<lambda>q. post_id q = i" "posts db" p] by (simp add: post_findUnique_def)
  have "find (\<lambda>q. post_id q = i) (map ?f (posts db)) = map_option ?f (find (\<lambda>q. post_id q = i) (posts db))"
    by (rule find_map_key) simp
  then have "post_findUnique db' i = Some p'"
    using p key res by (simp add: post_findUnique_def)
  then show ?thesis
    using p res by simp
qed

lemma commentHandlers_update_accepted:
  assumes "commentHandlers_update ru j cbody db = (Respond 200 (CommentJson c'), db')"
  shows "\<exists>c. comment_findUnique db j = Some c \<and> comment_findUnique db' j = Some c' \<and>
             comment_userId c' = comment_userId c \<and> comment_postId c' = comment_postId c"
proof -
  from assms obtain content c where content: "updateCommentSchema cbody = Some content"
    and c: "comment_findUnique db j = Some c"
    and allowed: "ru_role ru = admin \<or> comment_userId c = ru_id ru"
    by (auto simp: commentHandlers_update_def split: option.splits if_splits)
  let ?f = "\<lambda>q. if comment_id q = j then q\<lparr>comment_content := content\<rparr> else q"
  from assms content c allowed have res: "c' = c\<lparr>comment_content := content\<rparr>"
    "db' = db\<lparr>comments := map ?f (comments db)\<rparr>"
    by (auto simp: commentHandlers_update_authz)
  have key: "comment_id c = j"
    using c find_key_holds [of "\<lambda>q. comment_id q = j" "comments db" c]
    by (simp add: comment_findUnique_def)
  have "find (\<lambda>q. comment_id q = j) (map ?f (comments db)) =
        map_option ?f (find (\<lambda>q. comment_id q = j) (comments db))"
    by (rule find_map_key) simp
  then have "comment_findUnique db' j = Some c'"
    using c key res by (simp add: comment_findUnique_def)
  then show ?thesis
    using c res by simp
qed

lemma authenticate_no_token:
  assumes "header_token authorization = None \<or> header_token authorization = Some []"
  shows "authenticate verify_token db authorization =
         Inl (Respond 401 (ErrorMsg ''Authentication required''))"
  using assms by (auto simp: authenticate_def)

lemma run_route_no_token:
  assumes "header_token authorization = None \<or> header_token authorization = Some []"
  shows "run_route verify_token limited db authorization r =
     (if Authenticate \<in> set (route_middlewares r)
      then Inl (Respond 401 (ErrorMsg ''Authentication required''))
      else if limited \<and> RateLimit \<in> set (route_middlewares r)
      then Inl (Respond 429 (ErrorMsg ''Too many requests, please try again later.''))
      else Inr None)"
  by (cases r) (simp_all add: run_route_def authenticate_no_token [OF assms])

lemma jwt_verify_sign:
  "now \<le> issued + ttl \<Longrightarrow> jwt_verify mac (jwt_sign mac ident secret ttl issued) secret now = Inr ident"
  by (simp add: jwt_verify_def jwt_sign_def)

lemma login_token:
  assumes "authHandlers_login env body db = (Respond 200 (AuthJson su t), db')"
  shows "\<exists>u. user_findUnique_email db (user_email u) = Some u \<and> su = safeUser u \<and>
             t = token_for env u \<and> db' = db"
proof (cases "loginSchema (isEmail env) body")
  case None
  with assms show ?thesis
    by (simp add: authHandlers_login_def)
next
  case (Some credentials)
  obtain e password where credentials: "credentials = (e, password)"
    by (cases credentials)
  show ?thesis
  proof (cases "user_findUnique_email db e")
    case None
    with assms Some credentials show ?thesis
      by (simp add: authHandlers_login_def)
  next
    case found: (Some u)
    then have "user_email u = e"
      unfolding user_findUnique_email_def by (rule find_key_holds)
    moreover from assms Some credentials found
    have "su = safeUser u \<and> t = token_for env u \<and> db' = db"
      by (cases "bcrypt_compare env password (user_password u)") (simp_all add: authHandlers_login_def)
    ultimately show ?thesis
      using found by blast
  qed
qed

lemma signup_created:
  assumes "authHandlers_signup env body db = (Respond 201 b, db')"
  shows "\<exists>u. users db' = users db @ [u] \<and> user_role u = user \<and>
             b = AuthJson (safeUser u) (token_for env u)"
  using assms
  by (auto simp: authHandlers_signup_def user_create_def Let_def split: option.splits if_splits)

lemma signup_admins:
  "filter (\<lambda>u. user_role u = admin) (users (snd (authHandlers_signup env body db))) =
   filter (\<lambda>u. user_role u = admin) (users db)"
  by (auto simp: authHandlers_signup_def user_create_def Let_def split: option.splits)

lemma signupSchema_ignores_role:
  "signupSchema is_email (JObj ((''role'', v) # kvs)) = signupSchema is_email (JObj kvs)"
  by (simp add: signupSchema_def z_members_def)

lemma signup_ignores_role:
  "authHandlers_signup env (JObj ((''role'', v) # kvs)) db = authHandlers_signup env (JObj kvs) db"
  by (simp add: authHandlers_signup_def signupSchema_ignores_role)

lemma postHandlers_create_owner:
  assumes "postHandlers_create new_id ru body db = (Respond 201 (PostJson p), db')"
  shows "post_userId p = ru_id ru \<and> posts db' = posts db @ [p] \<and> comments db' = comments db"
proof (cases "createPostSchema body")
  case None
  with assms show ?thesis
    by (simp add: postHandlers_create_def)
next
  case (Some d)
  with assms show ?thesis
    by (auto simp: postHandlers_create_def post_create_def split: if_splits)
qed

lemma commentHandlers_create_owner:
  assumes "commentHandlers_create is_uuid new_id ru body db = (Respond 201 (CommentJson c), db')"
  shows "comment_userId c = ru_id ru \<and> comments db' = comments db @ [c] \<and> posts db' = posts db"
proof (cases "createCommentSchema is_uuid body")
  case None
  with assms show ?thesis
    by (simp add: commentHandlers_create_def)
next
  case (Some d)
  show ?thesis
  proof (cases "post_findUnique db (in_postId d)")
    case None
    with assms Some show ?thesis
      by (simp add: commentHandlers_create_def)
  next
    case found: (Some post)
    with assms Some show ?thesis
      by (auto simp: commentHandlers_create_def comment_create_def split: if_splits)
  qed
qed

lemma filter_exI: "ys = xs \<or> ys = filter P xs \<Longrightarrow> \<exists>Q. ys = filter Q xs"
proof (erule disjE)
  assume "ys = xs"
  then have "ys = filter (\<lambda>x. True) xs" by simp
  then show ?thesis by (rule exI [of _ "\<lambda>x. True"])
next
  assume "ys = filter P xs"
  then show ?thesis by (rule exI [of _ P])
qed

lemma postHandlers_delete_rows:
  "(\<exists>P. posts (snd (postHandlers_delete fault ru i db)) = filter P (posts db)) \<and>
   (\<exists>Q. comments (snd (postHandlers_delete fault ru i db)) = filter Q (comments db))"
proof (cases "post_findUnique db i")
  case None
  then show ?thesis
    by (simp add: postHandlers_delete_missing filter_exI)
next
  case (Some p)
  have "posts (snd (postHandlers_delete fault ru i db)) = posts db \<or>
        posts (snd (postHandlers_delete fault ru i db)) = filter (\<lambda>q. post_id q \<noteq> i) (posts db)"
    by (simp add: postHandlers_delete_authz [OF Some])
  moreover have "comments (snd (postHandlers_delete fault ru i db)) = comments db \<or>
        comments (snd (postHandlers_delete fault ru i db)) =
          filter (\<lambda>c. comment_postId c \<noteq> i) (comments db)"
    by (simp add: postHandlers_delete_authz [OF Some])
  ultimately show ?thesis
    by (blast intro: filter_exI)
qed

lemma commentHandlers_delete_rows:
  "posts (snd (commentHandlers_delete ru j db)) = posts db \<and>
   (\<exists>Q. comments (snd (commentHandlers_delete ru j db)) = filter Q (comments db))"
proof (cases "comment_findUnique db j")
  case None
  then show ?thesis
    by (simp add: commentHandlers_delete_missing filter_exI)
next
  case (Some c)
  have "comments (snd (commentHandlers_delete ru j db)) = comments db \<or>
        comments (snd (commentHandlers_delete ru j db)) = filter (\<lambda>q. comment_id q \<noteq> j) (comments db)"
    by (simp add: commentHandlers_delete_authz [OF Some])
  moreover have "posts (snd (commentHandlers_delete ru j db)) = posts db"
    by (simp add: commentHandlers_delete_authz [OF Some])
  ultimately show ?thesis
    by (blast intro: filter_exI)
qed

lemma updateUserRole_rows:
  "posts (snd (userHandlers_updateUserRole ru i body db)) = posts db \<and>
   comments (snd (userHandlers_updateUserRole ru i body db)) = comments db"
  by (auto simp: userHandlers_updateUserRole_def user_update_role_def split: option.splits)

lemma deleteUser_rows:
  "(\<exists>P. posts (snd (userHandlers_deleteUser fault ru i db)) = filter P (posts db)) \<and>
   (\<exists>Q. comments (snd (userHandlers_deleteUser fault ru i db)) = filter Q (comments db))"
proof (cases "i = ru_id ru")
  case True
  then show ?thesis
    by (simp add: deleteUser_self filter_exI)
next
  case False
  have "posts (snd (userHandlers_deleteUser fault ru i db)) = posts db \<or>
        posts (snd (userHandlers_deleteUser fault ru i db)) = filter (\<lambda>p. post_userId p \<noteq> i) (posts db)"
    by (simp add: deleteUser_other [OF False])
  moreover have "comments (snd (userHandlers_deleteUser fault ru i db)) = comments db \<or>
        comments (snd (userHandlers_deleteUser fault ru i db)) =
          filter (\<lambda>c. comment_userId c \<noteq> i \<and>
                       comment_postId c \<notin> set (map post_id (filter (\<lambda>p. post_userId p = i) (posts db))))
            (comments db)"
    by (simp add: deleteUser_other [OF False] conj_commute)
  ultimately show ?thesis
    by (blast intro: filter_exI)
qed

lemma signup_rows:
  "posts (snd (authHandlers_signup env body db)) = posts db \<and> comments (snd (authHandlers_signup env body db)) = comments db"
  by (auto simp: authHandlers_signup_def user_create_def Let_def split: option.splits)

lemma login_rows:
  "snd (authHandlers_login env body db) = db"
  by (auto simp: authHandlers_login_def split: option.splits prod.splits)

section \<open>Authorization of mutations\<close>

text \<open>
  Claim C1, as amended. A post or comment delete request, and an update request whose
  body passes the handler's schema, made by an authenticated identity on an existing
  resource, is permitted if and only if the identity's role is \<open>admin\<close> or the
  resource's \<^verbatim>\<open>userId\<close> is the identity's id: then the handler runs the mutation
  (and, for a post, passes on a failure of the database inside the transaction, with
  nothing changed); otherwise it answers 403 and the database is unchanged. An update
  request whose body fails the schema is answered 400 before the resource is loaded,
  whoever asks, and the database is unchanged.
\<close>

theorem mutation_requires_owner_or_admin:
  "(updatePostSchema body = Some d \<and> post_findUnique db i = Some p \<longrightarrow>
      postHandlers_update ru i body db =
        (if ru_role ru = admin \<or> post_userId p = ru_id ru
         then (Respond 200 (PostJson (apply_post_updates d p)),
               db\<lparr>posts := map (\<lambda>q. if post_id q = i then apply_post_updates d q else q)
                              (posts db)\<rparr>)
         else (Respond 403 (ErrorMsg ''Not authorized to update this post''), db))) \<and>
   (post_findUnique db i = Some p \<longrightarrow>
      postHandlers_delete fault ru i db =
        (if ru_role ru = admin \<or> post_userId p = ru_id ru
         then (if fault 0 \<or> fault 1 then (Next (PrismaError StorageFailure), db)
               else (Respond 204 NoContent,
                     db\<lparr>posts := filter (\<lambda>q. post_id q \<noteq> i) (posts db),
                        comments := filter (\<lambda>c. comment_postId c \<noteq> i) (comments db)\<rparr>))
         else (Respond 403 (ErrorMsg ''Not authorized to delete this post''), db))) \<and>
   (updateCommentSchema cbody = Some content \<and> comment_findUnique db j = Some c \<longrightarrow>
      commentHandlers_update ru j cbody db =
        (if ru_role ru = admin \<or> comment_userId c = ru_id ru
         then (Respond 200 (CommentJson (c\<lparr>comment_content := content\<rparr>)),
               db\<lparr>comments := map (\<lambda>q. if comment_id q = j then q\<lparr>comment_content := content\<rparr>
                                          else q)
                                 (comments db)\<rparr>)
         else (Respond 403 (ErrorMsg ''Not authorized''), db))) \<and>
   (comment_findUnique db j = Some c \<longrightarrow>
      commentHandlers_delete ru j db =
        (if ru_role ru = admin \<or> comment_userId c = ru_id ru
         then (Respond 204 NoContent,
               db\<lparr>comments := filter (\<lambda>q. comment_id q \<noteq> j) (comments db)\<rparr>)
         else (Respond 403 (ErrorMsg ''Not authorized''), db))) \<and>
   (updatePostSchema body = None \<longrightarrow>
      postHandlers_update ru i body db = (Respond 400 ZodIssues, db)) \<and>
   (updateCommentSchema cbody = None \<longrightarrow>
      commentHandlers_update ru j cbody db = (Respond 400 ZodIssues, db))"
  using postHandlers_update_authz [of body d db i p ru]
    postHandlers_delete_authz [of db i p fault ru]
    commentHandlers_update_authz [of cbody content db j c ru]
    commentHandlers_delete_authz [of db j c ru]
    postHandlers_update_invalid [of body ru i db]
    commentHandlers_update_invalid [of cbody ru j db]
  by blast

text \<open>
  The theorem on the example data: the owner and the administrator may update and
  delete, another user gets 403.
\<close>

theorem mutation_requires_owner_or_admin_witness:
  "updatePostSchema (JObj [(''title'', JStr ''Updated Title'')]) =
     Some \<lparr>upd_title = Some ''Updated Title'', upd_content = None\<rparr> \<and>
   post_findUnique testDb ''p1'' = Some testPost \<and>
   updateCommentSchema (JObj [(''content'', JStr ''Edited'')]) = Some ''Edited'' \<and>
   comment_findUnique testDb ''c1'' = Some testComment \<and>
   postHandlers_update (req_user_of otherUser) ''p1'' (JObj [(''title'', JStr ''Updated Title'')]) testDb =
     (Respond 403 (ErrorMsg ''Not authorized to update this post''), testDb) \<and>
   postHandlers_update (req_user_of owner) ''p1'' (JObj [(''title'', JStr ''Updated Title'')]) testDb =
     (Respond 200 (PostJson (testPost\<lparr>post_title := ''Updated Title''\<rparr>)),
      testDb\<lparr>posts := [testPost\<lparr>post_title := ''Updated Title''\<rparr>, otherPost]\<rparr>) \<and>
   postHandlers_delete no_fault (req_user_of otherUser) ''p1'' testDb =
     (Respond 403 (ErrorMsg ''Not authorized to delete this post''), testDb) \<and>
   postHandlers_delete no_fault (req_user_of adminUser) ''p1'' testDb =
     (Respond 204 NoContent, testDb\<lparr>posts := [otherPost], comments := [ownComment]\<rparr>) \<and>
   commentHandlers_update (req_user_of owner) ''c1'' (JObj [(''content'', JStr ''Edited'')]) testDb =
     (Respond 403 (ErrorMsg ''Not authorized''), testDb) \<and>
   commentHandlers_update (req_user_of otherUser) ''c1'' (JObj [(''content'', JStr ''Edited'')]) testDb =
     (Respond 200 (CommentJson (testComment\<lparr>comment_content := ''Edited''\<rparr>)),
      testDb\<lparr>comments := [testComment\<lparr>comment_content := ''Edited''\<rparr>, ownComment]\<rparr>) \<and>
   commentHandlers_delete (req_user_of owner) ''c1'' testDb =
     (Respond 403 (ErrorMsg ''Not authorized''), testDb) \<and>
   commentHandlers_delete (req_user_of adminUser) ''c1'' testDb =
     (Respond 204 NoContent, testDb\<lparr>comments := [ownComment]\<rparr>) \<and>
   updatePostSchema (JObj [(''title'', JNum 5)]) = None \<and>
   updateCommentSchema (JObj [(''content'', JStr [])]) = None \<and>
   postHandlers_update (req_user_of owner) ''p1'' (JObj [(''title'', JNum 5)]) testDb =
     (Respond 400 ZodIssues, testDb) \<and>
   commentHandlers_update (req_user_of otherUser) ''c1'' (JObj [(''content'', JStr [])]) testDb =
     (Respond 400 ZodIssues, testDb)"
  using
    mutation_requires_owner_or_admin [of "JObj [(''title'', JStr ''Updated Title'')]"
      "\<lparr>upd_title = Some ''Updated Title'', upd_content = None\<rparr>" testDb "''p1''" testPost
      "req_user_of otherUser" no_fault "JObj [(''content'', JStr ''Edited'')]" "''Edited''" "''c1''"
      testComment]
    mutation_requires_owner_or_admin [of "JObj [(''title'', JStr ''Updated Title'')]"
      "\<lparr>upd_title = Some ''Updated Title'', upd_content = None\<rparr>" testDb "''p1''" testPost
      "req_user_of owner" no_fault "JObj [(''content'', JStr ''Edited'')]" "''Edited''" "''c1''"
      testComment]
    mutation_requires_owner_or_admin [of "JObj [(''title'', JStr ''Updated Title'')]"
      "\<lparr>upd_title = Some ''Updated Title'', upd_content = None\<rparr>" testDb "''p1''" testPost
      "req_user_of adminUser" no_fault "JObj [(''content'', JStr ''Edited'')]" "''Edited''" "''c1''"
      testComment]
    mutation_requires_owner_or_admin [of "JObj [(''title'', JNum 5)]"
      "\<lparr>upd_title = None, upd_content = None\<rparr>" testDb "''p1''" testPost
      "req_user_of owner" no_fault "JObj [(''content'', JStr [])]" "''Edited''" "''c1''"
      testComment]
    mutation_requires_owner_or_admin [of "JObj [(''title'', JNum 5)]"
      "\<lparr>upd_title = None, upd_content = None\<rparr>" testDb "''p1''" testPost
      "req_user_of otherUser" no_fault "JObj [(''content'', JStr [])]" "''Edited''" "''c1''"
      testComment]
  by (simp add: req_user_of_def owner_def otherUser_def adminUser_def testPost_def otherPost_def
      testComment_def ownComment_def testDb_def no_fault_def z_members_def z_string_def
      z_string_optional_def updatePostSchema_def updateCommentSchema_def post_findUnique_def
      comment_findUnique_def apply_post_updates_def)

text \<open>
  Claim C1 as first stated fails: a user who is neither the owner nor an administrator
  sends a comment update without \<^verbatim>\<open>content\<close>, and the handler answers 400, not 403.
\<close>

theorem forbidden_after_validation_counterexample:
  "comment_findUnique testDb ''c1'' = Some testComment \<and>
   comment_userId testComment \<noteq> ru_id (req_user_of owner) \<and>
   ru_role (req_user_of owner) \<noteq> admin \<and>
   commentHandlers_update (req_user_of owner) ''c1'' (JObj []) testDb = (Respond 400 ZodIssues, testDb) \<and>
   fst (commentHandlers_update (req_user_of owner) ''c1'' (JObj []) testDb) \<noteq>
     Respond 403 (ErrorMsg ''Not authorized'')"
  by (simp add: req_user_of_def owner_def testComment_def testDb_def z_members_def z_string_def
      updateCommentSchema_def comment_findUnique_def commentHandlers_update_def)

section \<open>The self-mutation guard\<close>

text \<open>
  Claim C2. For every identity, whatever its role, a request through the user
  management handlers to change its own role or to delete its own account is rejected,
  and the database, with the account in it, is unchanged: \<^verbatim>\<open>updateUserRole\<close>
  throws \<^verbatim>\<open>CustomError(400, "Cannot update your own role")\<close> (or the validation
  error of a body with no valid role, which is checked first), and \<^verbatim>\<open>deleteUser\<close>
  throws \<^verbatim>\<open>CustomError(400, "Cannot delete your own account")\<close>, whether or not
  the database would fail.
\<close>

theorem self_mutation_rejected:
  "userHandlers_updateUserRole ru (ru_id ru) body db =
     (Throw (if roleSchema body = None then ZodError
             else CustomError 400 ''Cannot update your own role''), db) \<and>
   userHandlers_deleteUser fault ru (ru_id ru) db =
     (Throw (CustomError 400 ''Cannot delete your own account''), db)"
  using updateUserRole_self [of ru body db] deleteUser_self [of fault ru db]
  by (rule conjI)

text \<open>An administrator who asks to become a plain user, or to be deleted, is refused.\<close>

theorem self_mutation_rejected_witness:
  "ru_role (req_user_of adminUser) = admin \<and>
   userHandlers_updateUserRole (req_user_of adminUser) ''u3'' (JObj [(''role'', JStr ''user'')]) testDb =
     (Throw (CustomError 400 ''Cannot update your own role''), testDb) \<and>
   userHandlers_deleteUser no_fault (req_user_of adminUser) ''u3'' testDb =
     (Throw (CustomError 400 ''Cannot delete your own account''), testDb)"
  using self_mutation_rejected [of "req_user_of adminUser" "JObj [(''role'', JStr ''user'')]" testDb no_fault]
  by (simp add: req_user_of_def adminUser_def z_members_def z_role_def roleSchema_def)

section \<open>Not found before forbidden\<close>

text \<open>
  Claim C3, as amended. For every post or comment delete request, and every update
  request whose body passes the handler's schema, whose target id does not exist, the
  handler answers 404, whatever the identity's role or ownership: the existence check
  comes before the authorization check. An update request whose body fails the schema
  is answered 400 before the existence check. In no case is the answer 403, and the
  database is unchanged.
\<close>

theorem not_found_before_forbidden:
  "(post_findUnique db i = None \<longrightarrow>
      postHandlers_update ru i body db =
        (if updatePostSchema body = None then (Respond 400 ZodIssues, db)
         else (Respond 404 (ErrorMsg ''Post not found''), db)) \<and>
      postHandlers_delete fault ru i db = (Respond 404 (ErrorMsg ''Post not found''), db) \<and>
      fst (postHandlers_update ru i body db) \<noteq> Respond 403 msg \<and>
      fst (postHandlers_delete fault ru i db) \<noteq> Respond 403 msg) \<and>
   (comment_findUnique db j = None \<longrightarrow>
      commentHandlers_update ru j cbody db =
        (if updateCommentSchema cbody = None then (Respond 400 ZodIssues, db)
         else (Respond 404 (ErrorMsg ''Comment not found''), db)) \<and>
      commentHandlers_delete ru j db = (Respond 404 (ErrorMsg ''Comment not found''), db) \<and>
      fst (commentHandlers_update ru j cbody db) \<noteq> Respond 403 msg \<and>
      fst (commentHandlers_delete ru j db) \<noteq> Respond 403 msg)"
proof (intro conjI impI)
  assume missing: "post_findUnique db i = None"
  show "postHandlers_update ru i body db =
        (if updatePostSchema body = None then (Respond 400 ZodIssues, db)
         else (Respond 404 (ErrorMsg ''Post not found''), db))"
    by (rule postHandlers_update_missing [OF missing])
  then show "fst (postHandlers_update ru i body db) \<noteq> Respond 403 msg"
    by simp
  show "postHandlers_delete fault ru i db = (Respond 404 (ErrorMsg ''Post not found''), db)"
    by (rule postHandlers_delete_missing [OF missing])
  then show "fst (postHandlers_delete fault ru i db) \<noteq> Respond 403 msg"
    by simp
next
  assume missing: "comment_findUnique db j = None"
  show "commentHandlers_update ru j cbody db =
        (if updateCommentSchema cbody = None then (Respond 400 ZodIssues, db)
         else (Respond 404 (ErrorMsg ''Comment not found''), db))"
    by (rule commentHandlers_update_missing [OF missing])
  then show "fst (commentHandlers_update ru j cbody db) \<noteq> Respond 403 msg"
    by simp
  show "commentHandlers_delete ru j db = (Respond 404 (ErrorMsg ''Comment not found''), db)"
    by (rule commentHandlers_delete_missing [OF missing])
  then show "fst (commentHandlers_delete ru j db) \<noteq> Respond 403 msg"
    by simp
qed

text \<open>
  A user who owns nothing asks for a post and a comment that do not exist, with valid
  bodies: every answer is 404.
\<close>

theorem not_found_before_forbidden_witness:
  "post_findUnique testDb ''non-existent-id'' = None \<and>
   comment_findUnique testDb ''non-existent-id'' = None \<and>
   updatePostSchema (JObj [(''title'', JStr ''Updated Title'')]) \<noteq> None \<and>
   updateCommentSchema (JObj [(''content'', JStr ''Edited'')]) \<noteq> None \<and>
   postHandlers_update (req_user_of otherUser) ''non-existent-id''
       (JObj [(''title'', JStr ''Updated Title'')]) testDb =
     (Respond 404 (ErrorMsg ''Post not found''), testDb) \<and>
   postHandlers_delete no_fault (req_user_of otherUser) ''non-existent-id'' testDb =
     (Respond 404 (ErrorMsg ''Post not found''), testDb) \<and>
   commentHandlers_update (req_user_of otherUser) ''non-existent-id''
       (JObj [(''content'', JStr ''Edited'')]) testDb =
     (Respond 404 (ErrorMsg ''Comment not found''), testDb) \<and>
   commentHandlers_delete (req_user_of otherUser) ''non-existent-id'' testDb =
     (Respond 404 (ErrorMsg ''Comment not found''), testDb)"
  using not_found_before_forbidden [of testDb "''non-existent-id''" "req_user_of otherUser"
      "JObj [(''title'', JStr ''Updated Title'')]" no_fault "ErrorMsg ''Not authorized''"
      "''non-existent-id''"
      "JObj [(''content'', JStr ''Edited'')]"]
  by (simp add: testPost_def otherPost_def testComment_def ownComment_def testDb_def z_members_def
      z_string_def z_string_optional_def updatePostSchema_def updateCommentSchema_def
      post_findUnique_def comment_findUnique_def)

text \<open>
  Claim C3 as first stated fails: an update of a post that does not exist, with an
  empty title, is answered 400, not 404.
\<close>

theorem not_found_after_validation_counterexample:
  "post_findUnique testDb ''non-existent-id'' = None \<and>
   postHandlers_update (req_user_of owner) ''non-existent-id'' (JObj [(''title'', JStr '''')]) testDb =
     (Respond 400 ZodIssues, testDb) \<and>
   fst (postHandlers_update (req_user_of owner) ''non-existent-id'' (JObj [(''title'', JStr '''')])
          testDb) \<noteq>
     Respond 404 (ErrorMsg ''Post not found'')"
  by (simp add: testPost_def otherPost_def testDb_def z_members_def z_string_def
      z_string_optional_def updatePostSchema_def post_findUnique_def postHandlers_update_def)

section \<open>User management on a user that does not exist\<close>

text \<open>
  Claim C4 does not hold of the code. Neither \<^verbatim>\<open>updateUserRole\<close> nor
  \<^verbatim>\<open>deleteUser\<close> loads the target user: for an id that no user has, the call of
  \<^verbatim>\<open>prisma.user.update\<close>, or of \<^verbatim>\<open>prisma.user.delete\<close> inside the transaction,
  throws Prisma's record-not-found error, which is no \<^verbatim>\<open>CustomError(404)\<close> and which
  the error handler of app.ts answers with 500. The post and comment handlers, and
  \<^verbatim>\<open>getProfile\<close> in the same file, do answer 404 for a missing row.
\<close>

theorem user_management_target_not_loaded:
  "user_findUnique testDb ''non-existent-id'' = None \<and>
   userHandlers_updateUserRole (req_user_of adminUser) ''non-existent-id'' (JObj [(''role'', JStr ''admin'')]) testDb =
     (Throw (PrismaError RecordNotFound), testDb) \<and>
   userHandlers_deleteUser no_fault (req_user_of adminUser) ''non-existent-id'' testDb =
     (Throw (PrismaError RecordNotFound), testDb) \<and>
   errorHandler (PrismaError RecordNotFound) = 500"
proof -
  have missing: "user_findUnique testDb ''non-existent-id'' = None"
    by (simp add: owner_def otherUser_def adminUser_def testDb_def user_findUnique_def)
  have other: "''non-existent-id'' \<noteq> ru_id (req_user_of adminUser)"
    by (simp add: req_user_of_def adminUser_def)
  have role: "roleSchema (JObj [(''role'', JStr ''admin'')]) = Some admin"
    by (simp add: z_members_def z_role_def roleSchema_def)
  show ?thesis
    using missing updateUserRole_missing [OF other role missing]
      deleteUser_other [OF other, of no_fault testDb]
    by (simp add: no_fault_def)
qed

section \<open>Deleting a post with its comments\<close>

text \<open>
  Claim C5. An authorized delete of a post removes the post and every comment whose
  \<^verbatim>\<open>postId\<close> is the post's id, in one transaction: either no statement fails, the
  answer is 204, and the posts and comments left are exactly those of another id; or the
  database fails at one of the two statements, the error is passed on, and the database
  is the one before the request, with the post and all its comments in it.
\<close>

theorem post_delete_cascade_atomic:
  assumes "post_findUnique db i = Some p"
    and "ru_role ru = admin \<or> post_userId p = ru_id ru"
  shows "postHandlers_delete fault ru i db =
       (if fault 0 \<or> fault 1 then (Next (PrismaError StorageFailure), db)
        else (Respond 204 NoContent,
              db\<lparr>posts := filter (\<lambda>q. post_id q \<noteq> i) (posts db),
                 comments := filter (\<lambda>c. comment_postId c \<noteq> i) (comments db)\<rparr>)) \<and>
     (snd (postHandlers_delete fault ru i db) = db \<or>
      post_findUnique (snd (postHandlers_delete fault ru i db)) i = None \<and>
      filter (\<lambda>c. comment_postId c = i) (comments (snd (postHandlers_delete fault ru i db))) = [])"
proof -
  have result: "postHandlers_delete fault ru i db =
       (if fault 0 \<or> fault 1 then (Next (PrismaError StorageFailure), db)
        else (Respond 204 NoContent,
              db\<lparr>posts := filter (\<lambda>q. post_id q \<noteq> i) (posts db),
                 comments := filter (\<lambda>c. comment_postId c \<noteq> i) (comments db)\<rparr>))"
    using assms by (simp add: postHandlers_delete_authz)
  show ?thesis
  proof (cases "fault 0 \<or> fault 1")
    case True
    with result show ?thesis by simp
  next
    case False
    have "find (\<lambda>q. post_id q = i) (filter (\<lambda>q. \<not> post_id q = i) (posts db)) = None"
      by (rule find_filter_out)
    with False result show ?thesis
      by (simp add: post_findUnique_def)
  qed
qed

text \<open>
  The owner deletes the post: with no failure the post and its comment are gone; with a
  failure at the second statement, after the comments were deleted inside the
  transaction, nothing is.
\<close>

theorem post_delete_cascade_atomic_witness:
  "post_findUnique testDb ''p1'' = Some testPost \<and>
   post_userId testPost = ru_id (req_user_of owner) \<and>
   postHandlers_delete no_fault (req_user_of owner) ''p1'' testDb =
     (Respond 204 NoContent, testDb\<lparr>posts := [otherPost], comments := [ownComment]\<rparr>) \<and>
   postHandlers_delete (fault_at 1) (req_user_of owner) ''p1'' testDb =
     (Next (PrismaError StorageFailure), testDb) \<and>
   postHandlers_delete (fault_at 0) (req_user_of owner) ''p1'' testDb =
     (Next (PrismaError StorageFailure), testDb)"
  using post_delete_cascade_atomic [of testDb "''p1''" testPost "req_user_of owner" no_fault]
    post_delete_cascade_atomic [of testDb "''p1''" testPost "req_user_of owner" "fault_at 1"]
    post_delete_cascade_atomic [of testDb "''p1''" testPost "req_user_of owner" "fault_at 0"]
  by (simp add: req_user_of_def owner_def testPost_def otherPost_def testComment_def ownComment_def
      testDb_def no_fault_def fault_at_def post_findUnique_def)

section \<open>Requests without a credential\<close>

text \<open>
  Claim C6, as amended. The middleware \<^verbatim>\<open>authenticate\<close> answers every request that
  carries no bearer token (no \<^verbatim>\<open>Authorization\<close> header, a header with no second
  part, or an empty second part) with 401 \<^verbatim>\<open>Authentication required\<close>: it never
  lets a request pass as anonymous. The read routes (the list of posts, one post, the
  comments of a post) do not register the middleware, so such a request reaches their
  handlers with no identity; the routes that create, update or delete a post or a comment
  register it first, so such a request is answered 401 there. For every route, a
  request without a token is answered 401 when the route registers
  \<^verbatim>\<open>authenticate\<close>, 429 when it does not and its rate limiter rejects the request,
  and reaches the handler with no identity otherwise.
\<close>

theorem no_credential_routes:
  assumes "header_token authorization = None \<or> header_token authorization = Some []"
  shows "authenticate verify_token db authorization =
       Inl (Respond 401 (ErrorMsg ''Authentication required'')) \<and>
     run_route verify_token limited db authorization r =
       (if Authenticate \<in> set (route_middlewares r)
        then Inl (Respond 401 (ErrorMsg ''Authentication required''))
        else if limited \<and> RateLimit \<in> set (route_middlewares r)
        then Inl (Respond 429 (ErrorMsg ''Too many requests, please try again later.''))
        else Inr None) \<and>
     (r \<in> {PostsGetMany, PostsGetOne, CommentsGetByPost} \<longrightarrow>
        run_route verify_token limited db authorization r = Inr None) \<and>
     (r \<in> {PostsCreate, PostsUpdate, PostsDelete, CommentsCreate, CommentsUpdate, CommentsDelete} \<longrightarrow>
        run_route verify_token limited db authorization r =
          Inl (Respond 401 (ErrorMsg ''Authentication required'')))"
proof -
  note route = run_route_no_token [OF assms, of verify_token limited db r]
  have "r \<in> {PostsGetMany, PostsGetOne, CommentsGetByPost} \<longrightarrow>
        run_route verify_token limited db authorization r = Inr None"
    using route by auto
  moreover have
    "r \<in> {PostsCreate, PostsUpdate, PostsDelete, CommentsCreate, CommentsUpdate, CommentsDelete} \<longrightarrow>
        run_route verify_token limited db authorization r =
          Inl (Respond 401 (ErrorMsg ''Authentication required''))"
    using route by auto
  ultimately show ?thesis
    using route authenticate_no_token [OF assms, of verify_token db] by blast
qed

text \<open>
  Requests with no header and with the header \<^verbatim>\<open>Bearer\<close> followed by an empty token,
  as the tests send it: the post is read, the delete is answered 401.
\<close>

theorem no_credential_routes_witness:
  "header_token None = None \<and>
   header_token (Some ''Bearer '') = Some [] \<and>
   authenticate verify_none testDb (Some ''Bearer '') =
     Inl (Respond 401 (ErrorMsg ''Authentication required'')) \<and>
   run_route verify_none False testDb None PostsGetOne = Inr None \<and>
   postHandlers_getOne ''p1'' testDb = (Respond 200 (PostJson testPost), testDb) \<and>
   run_route verify_none False testDb (Some ''Bearer '') PostsGetMany = Inr None \<and>
   run_route verify_none False testDb None PostsDelete =
     Inl (Respond 401 (ErrorMsg ''Authentication required'')) \<and>
   run_route verify_none False testDb (Some ''Bearer '') CommentsUpdate =
     Inl (Respond 401 (ErrorMsg ''Authentication required''))"
  using no_credential_routes [of None verify_none testDb False PostsGetOne]
    no_credential_routes [of "Some ''Bearer ''" verify_none testDb False PostsGetMany]
    no_credential_routes [of None verify_none testDb False PostsDelete]
    no_credential_routes [of "Some ''Bearer ''" verify_none testDb False CommentsUpdate]
  by (simp add: header_token_def postHandlers_getOne_def testPost_def testDb_def
      post_findUnique_def)

text \<open>
  Claim C6 as first stated fails: on a request with no credential the middleware does
  not proceed as anonymous, it ends the request with 401; and signup, which creates a
  user, is reached without a credential.
\<close>

theorem authenticate_rejects_anonymous_counterexample:
  "header_token None = None \<and>
   authenticate verify_none testDb None =
     Inl (Respond 401 (ErrorMsg ''Authentication required'')) \<and>
   route_method AuthSignup = POST \<and>
   run_route verify_none False testDb None AuthSignup = Inr None"
  by (simp add: header_token_def authenticate_def run_route_def)

section \<open>Tokens\<close>

text \<open>
  Claim C7. For every identity and every time strictly before the expiry embedded in
  the token, verifying, with the same secret, a token issued for the identity succeeds
  and gives back exactly the claims of the identity. The expiry is the time of issue
  plus the time to live. In particular the token that \<^verbatim>\<open>login\<close> returns verifies,
  until it expires, to the id, e-mail and role of the user in the response.
\<close>

theorem token_round_trip:
  "tok_exp (jwt_sign mac ident secret ttl issued) = issued + ttl \<and>
   (now < tok_exp (jwt_sign mac ident secret ttl issued) \<longrightarrow>
      jwt_verify mac (jwt_sign mac ident secret ttl issued) secret now = Inr ident) \<and>
   (authHandlers_login env body db = (Respond 200 (AuthJson su t), db') \<and>
    now < clock env + jwt_expiresIn env \<longrightarrow>
      jwt_verify (hmac env) t (jwt_secret env) now =
        Inr \<lparr>userId = su_id su, email = su_email su, role = su_role su\<rparr>)"
proof (intro conjI impI)
  show "tok_exp (jwt_sign mac ident secret ttl issued) = issued + ttl"
    by (simp add: jwt_sign_def)
  then show "jwt_verify mac (jwt_sign mac ident secret ttl issued) secret now = Inr ident"
    if "now < tok_exp (jwt_sign mac ident secret ttl issued)"
    using that by (simp add: jwt_verify_sign)
next
  assume a: "authHandlers_login env body db = (Respond 200 (AuthJson su t), db') \<and>
    now < clock env + jwt_expiresIn env"
  then obtain u where "su = safeUser u" "t = token_for env u"
    using login_token [of env body db su t db'] by blast
  with a show "jwt_verify (hmac env) t (jwt_secret env) now =
        Inr \<lparr>userId = su_id su, email = su_email su, role = su_role su\<rparr>"
    by (simp add: token_for_def safeUser_def jwt_verify_sign)
qed

text \<open>
  The administrator logs in; one second before the seven days are over the token
  verifies to the administrator's claims.
\<close>

theorem token_round_trip_witness:
  "authHandlers_login testEnv loginBody testDb =
     (Respond 200 (AuthJson (safeUser adminUser) (token_for testEnv adminUser)), testDb) \<and>
   tok_exp (token_for testEnv adminUser) = 1700604800 \<and>
   (1700604799 :: nat) < clock testEnv + jwt_expiresIn testEnv \<and>
   jwt_verify (hmac testEnv) (token_for testEnv adminUser) (jwt_secret testEnv) 1700604799 =
     Inr \<lparr>userId = ''u3'', email = ''admin@example.com'', role = admin\<rparr>"
  using token_round_trip [of "hmac testEnv"
      "\<lparr>userId = ''u3'', email = ''admin@example.com'', role = admin\<rparr>" "jwt_secret testEnv"
      604800 1700000000 1700604799 testEnv loginBody testDb "safeUser adminUser"
      "token_for testEnv adminUser" testDb]
  by (simp add: authHandlers_login_def testEnv_def loginBody_def owner_def otherUser_def adminUser_def
      testDb_def z_members_def z_string_def z_email_def loginSchema_def
      user_findUnique_email_def token_for_def safeUser_def jwt_sign_def)

section \<open>Ownership is not reassigned\<close>

text \<open>
  Claim C8. An update of a post or of a comment leaves the \<^verbatim>\<open>userId\<close> of every
  row as it was: after \<^verbatim>\<open>postHandlers.update\<close> and after
  \<^verbatim>\<open>commentHandlers.update\<close>, accepted or not, both tables hold the same ids with
  the same owners, in the same order; and when an update is accepted, the row the
  handler returns is the row now stored under the id, with the owner (and, for a
  comment, the post) of the row stored before. The owner is set at creation: a created
  post or comment is appended with the requester's id as its \<^verbatim>\<open>userId\<close>. No other
  handler writes an owner: after a delete of a post, of a comment or of a user, the
  rows left are rows of before, unchanged, and a role update, a signup and a login leave
  both tables as they were.
\<close>

theorem update_keeps_owner:
  "map (\<lambda>q. (post_id q, post_userId q)) (posts (snd (postHandlers_update ru i body db))) =
     map (\<lambda>q. (post_id q, post_userId q)) (posts db) \<and>
   comments (snd (postHandlers_update ru i body db)) = comments db \<and>
   map (\<lambda>q. (comment_id q, comment_userId q))
       (comments (snd (commentHandlers_update ru' j cbody db))) =
     map (\<lambda>q. (comment_id q, comment_userId q)) (comments db) \<and>
   posts (snd (commentHandlers_update ru' j cbody db)) = posts db \<and>
   (postHandlers_update ru i body db = (Respond 200 (PostJson p'), db') \<longrightarrow>
      (\<exists>p. post_findUnique db i = Some p \<and> post_findUnique db' i = Some p' \<and>
           post_userId p' = post_userId p \<and> post_id p' = post_id p)) \<and>
   (commentHandlers_update ru' j cbody db = (Respond 200 (CommentJson c'), db'') \<longrightarrow>
      (\<exists>c. comment_findUnique db j = Some c \<and> comment_findUnique db'' j = Some c' \<and>
           comment_userId c' = comment_userId c \<and> comment_postId c' = comment_postId c)) \<and>
   (postHandlers_create pid ru nbody db = (Respond 201 (PostJson np), ndb) \<longrightarrow>
      post_userId np = ru_id ru \<and> posts ndb = posts db @ [np] \<and> comments ndb = comments db) \<and>
   (commentHandlers_create is_uuid cid ru' ncbody db = (Respond 201 (CommentJson nc), ndb') \<longrightarrow>
      comment_userId nc = ru_id ru' \<and> comments ndb' = comments db @ [nc] \<and>
      posts ndb' = posts db) \<and>
   ((\<exists>P. posts (snd (postHandlers_delete fault ru i db)) = filter P (posts db)) \<and>
    (\<exists>Q. comments (snd (postHandlers_delete fault ru i db)) = filter Q (comments db))) \<and>
   (posts (snd (commentHandlers_delete ru' j db)) = posts db \<and>
    (\<exists>Q. comments (snd (commentHandlers_delete ru' j db)) = filter Q (comments db))) \<and>
   ((\<exists>P. posts (snd (userHandlers_deleteUser fault ru k db)) = filter P (posts db)) \<and>
    (\<exists>Q. comments (snd (userHandlers_deleteUser fault ru k db)) = filter Q (comments db))) \<and>
   (posts (snd (userHandlers_updateUserRole ru k rbody db)) = posts db \<and>
    comments (snd (userHandlers_updateUserRole ru k rbody db)) = comments db) \<and>
   (posts (snd (authHandlers_signup env sbody db)) = posts db \<and>
    comments (snd (authHandlers_signup env sbody db)) = comments db) \<and>
   snd (authHandlers_login env sbody db) = db"
proof -
  have updates:
    "map (\<lambda>q. (post_id q, post_userId q)) (posts (snd (postHandlers_update ru i body db))) =
       map (\<lambda>q. (post_id q, post_userId q)) (posts db)"
    "comments (snd (postHandlers_update ru i body db)) = comments db"
    "map (\<lambda>q. (comment_id q, comment_userId q))
         (comments (snd (commentHandlers_update ru' j cbody db))) =
       map (\<lambda>q. (comment_id q, comment_userId q)) (comments db)"
    "posts (snd (commentHandlers_update ru' j cbody db)) = posts db"
    by (rule postHandlers_update_owners commentHandlers_update_owners)+
  have accepted:
    "postHandlers_update ru i body db = (Respond 200 (PostJson p'), db') \<longrightarrow>
      (\<exists>p. post_findUnique db i = Some p \<and> post_findUnique db' i = Some p' \<and>
           post_userId p' = post_userId p \<and> post_id p' = post_id p)"
    "commentHandlers_update ru' j cbody db = (Respond 200 (CommentJson c'), db'') \<longrightarrow>
      (\<exists>c. comment_findUnique db j = Some c \<and> comment_findUnique db'' j = Some c' \<and>
           comment_userId c' = comment_userId c \<and> comment_postId c' = comment_postId c)"
    using postHandlers_update_accepted [of ru i body db p' db']
      commentHandlers_update_accepted [of ru' j cbody db c' db'']
    by blast+
  have created:
    "postHandlers_create pid ru nbody db = (Respond 201 (PostJson np), ndb) \<longrightarrow>
      post_userId np = ru_id ru \<and> posts ndb = posts db @ [np] \<and> comments ndb = comments db"
    "commentHandlers_create is_uuid cid ru' ncbody db = (Respond 201 (CommentJson nc), ndb') \<longrightarrow>
      comment_userId nc = ru_id ru' \<and> comments ndb' = comments db @ [nc] \<and>
      posts ndb' = posts db"
    using postHandlers_create_owner [of pid ru nbody db np ndb]
      commentHandlers_create_owner [of is_uuid cid ru' ncbody db nc ndb']
    by blast+
  show ?thesis
    using updates accepted created
      postHandlers_delete_rows [of fault ru i db] commentHandlers_delete_rows [of ru' j db]
      deleteUser_rows [of fault ru k db] updateUserRole_rows [of ru k rbody db]
      signup_rows [of env sbody db] login_rows [of env sbody db]
    by (elim conjE) (intro conjI; assumption)
qed

text \<open>
  An administrator rewrites the post of another user, and the author of a comment
  edits it: the owners stay. The administrator writes a post and the other user a
  comment: each is owned by its writer.
\<close>

theorem update_keeps_owner_witness:
  "postHandlers_update (req_user_of adminUser) ''p1'' (JObj [(''title'', JStr ''Admin Updated'')]) testDb =
     (Respond 200 (PostJson (testPost\<lparr>post_title := ''Admin Updated''\<rparr>)),
      testDb\<lparr>posts := [testPost\<lparr>post_title := ''Admin Updated''\<rparr>, otherPost]\<rparr>) \<and>
   post_userId (testPost\<lparr>post_title := ''Admin Updated''\<rparr>) = post_userId testPost \<and>
   post_userId testPost = ''u1'' \<and>
   commentHandlers_update (req_user_of otherUser) ''c1'' (JObj [(''content'', JStr ''Edited'')]) testDb =
     (Respond 200 (CommentJson (testComment\<lparr>comment_content := ''Edited''\<rparr>)),
      testDb\<lparr>comments := [testComment\<lparr>comment_content := ''Edited''\<rparr>, ownComment]\<rparr>) \<and>
   comment_userId (testComment\<lparr>comment_content := ''Edited''\<rparr>) = comment_userId testComment \<and>
   comment_userId testComment = ''u2'' \<and>
   postHandlers_create ''p3'' (req_user_of adminUser)
       (JObj [(''title'', JStr ''Test Post''), (''content'', JStr ''Test content'')]) testDb =
     (Respond 201
        (PostJson \<lparr>post_id = ''p3'', post_title = ''Test Post'', post_content = ''Test content'',
                   post_userId = ''u3''\<rparr>),
      testDb\<lparr>posts := [testPost, otherPost,
                          \<lparr>post_id = ''p3'', post_title = ''Test Post'',
                           post_content = ''Test content'', post_userId = ''u3''\<rparr>]\<rparr>) \<and>
   commentHandlers_create nonempty_id ''c3'' (req_user_of otherUser)
       (JObj [(''content'', JStr ''Test comment''), (''postId'', JStr ''p1'')]) testDb =
     (Respond 201
        (CommentJson \<lparr>comment_id = ''c3'', comment_content = ''Test comment'',
                      comment_userId = ''u2'', comment_postId = ''p1''\<rparr>),
      testDb\<lparr>comments := [testComment, ownComment,
                             \<lparr>comment_id = ''c3'', comment_content = ''Test comment'',
                              comment_userId = ''u2'', comment_postId = ''p1''\<rparr>]\<rparr>)"
  using update_keeps_owner [of "req_user_of adminUser" "''p1''"
      "JObj [(''title'', JStr ''Admin Updated'')]" testDb "req_user_of otherUser" "''c1''"
      "JObj [(''content'', JStr ''Edited'')]" "testPost\<lparr>post_title := ''Admin Updated''\<rparr>"
      "testDb\<lparr>posts := [testPost\<lparr>post_title := ''Admin Updated''\<rparr>, otherPost]\<rparr>"
      "testComment\<lparr>comment_content := ''Edited''\<rparr>"
      "testDb\<lparr>comments := [testComment\<lparr>comment_content := ''Edited''\<rparr>, ownComment]\<rparr>"
      "''p3''" "JObj [(''title'', JStr ''Test Post''), (''content'', JStr ''Test content'')]"
      "\<lparr>post_id = ''p3'', post_title = ''Test Post'', post_content = ''Test content'',
        post_userId = ''u3''\<rparr>"
      "testDb\<lparr>posts := [testPost, otherPost,
                          \<lparr>post_id = ''p3'', post_title = ''Test Post'',
                           post_content = ''Test content'', post_userId = ''u3''\<rparr>]\<rparr>"
      nonempty_id "''c3''" "JObj [(''content'', JStr ''Test comment''), (''postId'', JStr ''p1'')]"
      "\<lparr>comment_id = ''c3'', comment_content = ''Test comment'', comment_userId = ''u2'',
        comment_postId = ''p1''\<rparr>"
      "testDb\<lparr>comments := [testComment, ownComment,
                             \<lparr>comment_id = ''c3'', comment_content = ''Test comment'',
                              comment_userId = ''u2'', comment_postId = ''p1''\<rparr>]\<rparr>"]
  by (simp add: req_user_of_def owner_def otherUser_def adminUser_def testPost_def otherPost_def
      testComment_def ownComment_def testDb_def nonempty_id_def z_members_def z_string_def
      z_string_optional_def updatePostSchema_def updateCommentSchema_def createPostSchema_def
      createCommentSchema_def post_findUnique_def comment_findUnique_def user_findUnique_def
      postHandlers_update_def commentHandlers_update_def postHandlers_create_def
      commentHandlers_create_def post_update_def comment_update_def post_create_def
      comment_create_def apply_post_updates_def)

section \<open>Signup\<close>

text \<open>
  Claim C9. Every successful signup (answer 201) appends exactly one user row, with
  role \<open>user\<close>, and the user and the token in the response carry that role. No
  signup, successful or not, changes the administrators in the table. A
  \<^verbatim>\<open>role\<close> member in the request body never reaches the row: the schema does not
  declare the key, and the handler writes \<^verbatim>\<open>role: "user"\<close> itself; a body with a
  \<^verbatim>\<open>role\<close> member is handled as the body without it.
\<close>

theorem signup_role_is_user:
  "(authHandlers_signup env body db = (Respond 201 b, db') \<longrightarrow>
      (\<exists>u. users db' = users db @ [u] \<and> user_role u = user \<and>
           b = AuthJson (safeUser u) (token_for env u) \<and>
           su_role (safeUser u) = user \<and> role (tok_claims (token_for env u)) = user)) \<and>
   filter (\<lambda>u. user_role u = admin) (users (snd (authHandlers_signup env body db))) =
     filter (\<lambda>u. user_role u = admin) (users db) \<and>
   authHandlers_signup env (JObj ((''role'', v) # kvs)) db = authHandlers_signup env (JObj kvs) db"
proof (intro conjI impI)
  assume "authHandlers_signup env body db = (Respond 201 b, db')"
  then obtain u where u: "users db' = users db @ [u]" "user_role u = user"
    "b = AuthJson (safeUser u) (token_for env u)"
    using signup_created by blast
  moreover have "su_role (safeUser u) = user_role u"
    "role (tok_claims (token_for env u)) = user_role u"
    by (simp_all add: safeUser_def token_for_def jwt_sign_def)
  ultimately show "\<exists>u. users db' = users db @ [u] \<and> user_role u = user \<and>
           b = AuthJson (safeUser u) (token_for env u) \<and>
           su_role (safeUser u) = user \<and> role (tok_claims (token_for env u)) = user"
    by auto
next
  show "filter (\<lambda>u. user_role u = admin) (users (snd (authHandlers_signup env body db))) =
     filter (\<lambda>u. user_role u = admin) (users db)"
    by (rule signup_admins)
  show "authHandlers_signup env (JObj ((''role'', v) # kvs)) db = authHandlers_signup env (JObj kvs) db"
    by (rule signup_ignores_role)
qed

text \<open>A signup that asks for the role \<^verbatim>\<open>admin\<close> creates a plain user.\<close>

theorem signup_role_is_user_witness:
  "authHandlers_signup testEnv signupBody testDb =
     (Respond 201 (AuthJson (safeUser newUser) (token_for testEnv newUser)),
      testDb\<lparr>users := [owner, otherUser, adminUser, newUser]\<rparr>) \<and>
   user_role newUser = user \<and>
   su_role (safeUser newUser) = user \<and>
   role (tok_claims (token_for testEnv newUser)) = user"
  using signup_role_is_user [of testEnv signupBody testDb
      "AuthJson (safeUser newUser) (token_for testEnv newUser)"
      "testDb\<lparr>users := [owner, otherUser, adminUser, newUser]\<rparr>" "JStr ''admin''" "[]"]
  by (simp add: authHandlers_signup_def user_create_def testEnv_def newUser_def signupBody_def owner_def
      otherUser_def adminUser_def testDb_def z_members_def z_string_def z_email_def
      signupSchema_def user_findUnique_def user_findUnique_email_def token_for_def safeUser_def
      jwt_sign_def)

section \<open>Deleting a user with their posts and comments\<close>

text \<open>
  Claim C10. A request to delete a user other than the requester runs the three
  deletions (the user's comments, the user's posts, the user) in one transaction:
  either no statement fails, the answer is 204, and the database holds no user of that
  id, no post and no comment of that owner (the comments that others left on the deleted
  posts go with the posts, by the schema's cascade); or a statement fails (the database
  fails, or the user does not exist), the error is thrown, and the database is the one
  before the request.
\<close>

theorem user_delete_atomic:
  assumes "i \<noteq> ru_id ru"
  shows "userHandlers_deleteUser fault ru i db =
       (if fault 0 \<or> fault 1 \<or> fault 2 then (Throw (PrismaError StorageFailure), db)
        else if user_findUnique db i = None then (Throw (PrismaError RecordNotFound), db)
        else (Respond 204 NoContent,
              db\<lparr>users := filter (\<lambda>u. user_id u \<noteq> i) (users db),
                 posts := filter (\<lambda>p. post_userId p \<noteq> i) (posts db),
                 comments :=
                   filter (\<lambda>c. comment_postId c \<notin>
                                  set (map post_id (filter (\<lambda>p. post_userId p = i) (posts db))))
                     (filter (\<lambda>c. comment_userId c \<noteq> i) (comments db))\<rparr>)) \<and>
     (snd (userHandlers_deleteUser fault ru i db) = db \<or>
      user_findUnique (snd (userHandlers_deleteUser fault ru i db)) i = None \<and>
      filter (\<lambda>p. post_userId p = i) (posts (snd (userHandlers_deleteUser fault ru i db))) = [] \<and>
      filter (\<lambda>c. comment_userId c = i) (comments (snd (userHandlers_deleteUser fault ru i db))) = [])"
proof -
  note result = deleteUser_other [OF assms, of fault db]
  show ?thesis
  proof (cases "fault 0 \<or> fault 1 \<or> fault 2 \<or> user_findUnique db i = None")
    case True
    with result show ?thesis by auto
  next
    case False
    have "find (\<lambda>u. user_id u = i) (filter (\<lambda>u. \<not> user_id u = i) (users db)) = None"
      by (rule find_filter_out)
    with False result show ?thesis
      by (simp add: user_findUnique_def filter_empty_conv)
  qed
qed

text \<open>
  The administrator deletes the user who owns the first post: with no failure the user,
  the post, the user's comment and the comment on the post are gone; with a failure at
  the last statement, after comments and posts were deleted inside the transaction,
  nothing is.
\<close>

theorem user_delete_atomic_witness:
  "''u1'' \<noteq> ru_id (req_user_of adminUser) \<and>
   userHandlers_deleteUser no_fault (req_user_of adminUser) ''u1'' testDb =
     (Respond 204 NoContent,
      testDb\<lparr>users := [otherUser, adminUser], posts := [otherPost], comments := []\<rparr>) \<and>
   userHandlers_deleteUser (fault_at 2) (req_user_of adminUser) ''u1'' testDb =
     (Throw (PrismaError StorageFailure), testDb) \<and>
   userHandlers_deleteUser (fault_at 1) (req_user_of adminUser) ''u1'' testDb =
     (Throw (PrismaError StorageFailure), testDb)"
  using user_delete_atomic [of "''u1''" "req_user_of adminUser" no_fault testDb]
    user_delete_atomic [of "''u1''" "req_user_of adminUser" "fault_at 2" testDb]
    user_delete_atomic [of "''u1''" "req_user_of adminUser" "fault_at 1" testDb]
  by (simp add: req_user_of_def owner_def otherUser_def adminUser_def testPost_def otherPost_def
      testComment_def ownComment_def testDb_def no_fault_def fault_at_def user_findUnique_def)

end
